theory Spec2Isabelle
  imports Main
begin

section \<open>Session manager of \<open>create_session.py\<close>\<close>

text \<open>
  A shallow embedding of the class \<open>DozlabSessionManager\<close> of
  \<open>examples/kubernetes-api/python/create_session.py\<close>. Python strings are
  \<open>string\<close>, an exception that leaves a method is the left value of a sum type,
  and the state the methods act on (the cluster behind the Kubernetes API, the sequence
  of API calls made, the lines printed) is passed explicitly. The Kubernetes client, the YAML loader, the random
  token generator and the \<open>str\<close> of a loaded value are collaborators the file
  imports; they are fields of the manager, so every statement below holds for any
  behaviour of theirs.
\<close>

subsection \<open>Template substitution\<close>

text \<open>
  Line 100 renders the manifest with \<open>Template(self.template).safe_substitute(variables)\<close>
  of Python's \<open>string\<close> module. Its pattern, with the default delimiter and
  identifier pattern and the flag \<open>re.IGNORECASE\<close>, is the delimiter followed by
  one of four alternatives: the delimiter again (group \<open>escaped\<close>), an ASCII
  identifier \<open>[_a-z][_a-z0-9]*\<close> (group \<open>named\<close>), such an identifier in
  braces (group \<open>braced\<close>), or the empty string (group \<open>invalid\<close>);
  and \<open>safe_substitute\<close> is \<open>pattern.sub(convert, template)\<close>. Matching is
  greedy and the alternatives are tried in this order, so after a dollar sign a second
  dollar sign is an escape, an identifier is a named placeholder, a braced identifier is a
  braced placeholder, and anything else leaves the dollar sign alone as an invalid match
  of length one.
\<close>

definition id_start :: "char \<Rightarrow> bool" where
  "id_start c \<longleftrightarrow> c \<in> set ''_abcdefghijklmnopqrstuvwxyzABCDEFGHIJKLMNOPQRSTUVWXYZ''"

definition id_char :: "char \<Rightarrow> bool" where
  "id_char c \<longleftrightarrow> id_start c \<or> c \<in> set ''0123456789''"

datatype match_object = Escaped | Named string | Braced string | Invalid

datatype segment = Text char | Match match_object

definition match_id :: "string \<Rightarrow> (string \<times> string) option" where
  "match_id s =
     (case s of
        [] \<Rightarrow> None
      | c # r \<Rightarrow> if id_start c then Some (c # takeWhile id_char r, dropWhile id_char r) else None)"

definition match_braced :: "string \<Rightarrow> (string \<times> string) option" where
  "match_braced s =
     (case s of
        [] \<Rightarrow> None
      | c # r \<Rightarrow>
          if c = CHR ''{'' then
            (case match_id r of
               None \<Rightarrow> None
             | Some (n, r') \<Rightarrow>
                 (case r' of
                    [] \<Rightarrow> None
                  | d # r'' \<Rightarrow> if d = CHR ''}'' then Some (n, r'') else None))
          else None)"

text \<open>
  \<open>pattern_scan\<close> is the left-to-right sequence of non-overlapping matches that
  \<open>re.sub\<close> visits, together with the characters between them.
\<close>

function pattern_scan :: "string \<Rightarrow> segment list" where
  "pattern_scan [] = []"
| "pattern_scan (c # s) =
     (if c \<noteq> CHR ''$'' then Text c # pattern_scan s
      else if s \<noteq> [] \<and> hd s = CHR ''$'' then Match Escaped # pattern_scan (tl s)
      else case match_id s of
             Some (n, r) \<Rightarrow> Match (Named n) # pattern_scan r
           | None \<Rightarrow>
               (case match_braced s of
                  Some (n, r) \<Rightarrow> Match (Braced n) # pattern_scan r
                | None \<Rightarrow> Match Invalid # pattern_scan s))"
  by pat_completeness auto

termination
proof (relation "measure length")
  fix c s x2 x y
  assume "match_id s = Some x2" "(x, y) = x2"
  then show "(y, c # s) \<in> measure length"
    by (auto simp: match_id_def less_Suc_eq_le split: list.splits if_splits
          intro: le_SucI length_dropWhile_le)
next
  fix c s x2 x y
  assume "match_braced s = Some x2" "(x, y) = x2"
  then obtain d r where "s = CHR ''{'' # d # r" "dropWhile id_char r = CHR ''}'' # y"
    by (auto simp: match_braced_def match_id_def split: list.splits if_splits option.splits)
  moreover have "length (dropWhile id_char r) \<le> length r" by (rule length_dropWhile_le)
  ultimately show "(y, c # s) \<in> measure length" by simp
qed simp_all

text \<open>
  \<open>group\<close> is \<open>mo.group()\<close>, the matched text. \<open>convert\<close> is the
  inner function of \<open>safe_substitute\<close>: a placeholder whose name is a key of the
  mapping becomes the value, a \<open>KeyError\<close> is caught and the placeholder is returned
  as it stands, an escape becomes the delimiter, and an invalid match is returned as it
  stands. All values of the mapping built by \<open>create_session\<close> are strings.
\<close>

fun group :: "match_object \<Rightarrow> string" where
  "group Escaped = ''$$''"
| "group (Named n) = CHR ''$'' # n"
| "group (Braced n) = ''${'' @ n @ ''}''"
| "group Invalid = ''$''"

fun convert :: "(string \<rightharpoonup> string) \<Rightarrow> match_object \<Rightarrow> string" where
  "convert mapping (Named n) = (case mapping n of Some v \<Rightarrow> v | None \<Rightarrow> group (Named n))"
| "convert mapping (Braced n) = (case mapping n of Some v \<Rightarrow> v | None \<Rightarrow> group (Braced n))"
| "convert mapping Escaped = ''$''"
| "convert mapping Invalid = group Invalid"

fun substitute_segment :: "(match_object \<Rightarrow> string) \<Rightarrow> segment \<Rightarrow> string" where
  "substitute_segment repl (Text c) = [c]"
| "substitute_segment repl (Match mo) = repl mo"

definition pattern_sub :: "(match_object \<Rightarrow> string) \<Rightarrow> string \<Rightarrow> string" where
  "pattern_sub repl s = concat (map (substitute_segment repl) (pattern_scan s))"

definition safe_substitute :: "string \<Rightarrow> (string \<rightharpoonup> string) \<Rightarrow> string" where
  "safe_substitute template mapping = pattern_sub (convert mapping) template"

subsection \<open>Data\<close>

text \<open>
  A loaded YAML document is a tree of Python values; \<open>yaml.safe_load_all\<close> can
  return any of them. A dictionary is an association list with string keys, each key
  once. Of the scalars, null, booleans, integers and strings are kept: for the code below
  a float behaves as an integer does and a timestamp as a non-empty string. An \<open>ApiException\<close> carries the HTTP status and the reason.
  The exceptions that can leave the methods are the API exception (re-raised at line 145),
  the \<open>AttributeError\<close> of calling \<open>.get\<close> on a value that is not a dictionary
  (lines 112-114 and 272), the error of the YAML loader (line 103), and any other exception
  a call of the client raises, kept with the name of its class: the client raises
  \<open>ApiException\<close> for an HTTP answer of the server, and other exceptions, such as
  \<open>MaxRetryError\<close> of its HTTP library, when the server is not reached.
\<close>

datatype kind = Pod | Service | Secret

datatype yaml =
    YNull
  | YBool bool
  | YInt int
  | YStr string
  | YList "yaml list"
  | YDict "(string \<times> yaml) list"

datatype api_exception = ApiException (status: int) (reason: string)

datatype exn = ApiError api_exception | AttributeError | YAMLError string | OtherError string

text \<open>
  The attributes of the pod object that \<open>get_session_status\<close> reads (lines 272-286):
  \<open>metadata.labels\<close>, a dictionary, or \<open>None\<close> for a pod without labels;
  \<open>metadata.creation_timestamp\<close>, which is passed on as it is; \<open>status.phase\<close>,
  a string or \<open>None\<close>; and \<open>status.container_statuses\<close>, which the client
  leaves \<open>None\<close> until the orchestrator reports container statuses. The state of a
  container is kept as its \<open>str\<close>.
\<close>

record container_status =
  cs_name :: string
  cs_ready :: bool
  cs_restart_count :: int
  cs_state :: string

record pod =
  pod_labels :: "(string \<rightharpoonup> string) option"
  pod_creation_timestamp :: string
  pod_phase :: "string option"
  pod_container_statuses :: "container_status list option"

text \<open>
  \<open>self.core_v1\<close>: the three \<open>create_namespaced_*\<close> and the three
  \<open>delete_namespaced_*\<close> methods are one function each with the kind as an argument.
  A call acts on the cluster \<open>'c\<close> and either returns (an acknowledgment
  \<open>'a\<close> for a create, the pod for a read) or raises an exception, which may be an
  \<open>ApiException\<close>, the exception the methods catch, or any other. The arguments are the kind, then the namespace and the body
  for a create, the name and the namespace for a delete and a read, as the source passes
  them.
\<close>

record ('c, 'a) core_v1_api =
  create_namespaced :: "kind \<Rightarrow> string \<Rightarrow> yaml \<Rightarrow> 'c \<Rightarrow> (exn + 'a) \<times> 'c"
  delete_namespaced :: "kind \<Rightarrow> string \<Rightarrow> string \<Rightarrow> 'c \<Rightarrow> (exn + unit) \<times> 'c"
  read_namespaced_pod :: "string \<Rightarrow> string \<Rightarrow> 'c \<Rightarrow> (exn + pod) \<times> 'c"

text \<open>
  The manager: \<open>self.namespace\<close>, \<open>self.core_v1\<close>, \<open>self.template\<close>, and the
  imported functions \<open>yaml.safe_load_all\<close> (forced by \<open>list\<close> at line 103, so it
  either fails or yields all documents before the loop starts), \<open>secrets.token_urlsafe\<close>
  and \<open>str\<close> on a loaded value (the f-strings of lines 123-142).
\<close>

record ('c, 'a) manager =
  namespace :: string
  core_v1 :: "('c, 'a) core_v1_api"
  template :: string
  yaml_safe_load_all :: "string \<Rightarrow> string + yaml list"
  token_urlsafe :: "nat \<Rightarrow> string"
  str_yaml :: "yaml \<Rightarrow> string"

text \<open>
  The world a method runs in: the cluster, the API calls made so far with their
  outcomes, and the lines printed so far.
\<close>

datatype 'a call =
    CreateCall kind string yaml "exn + 'a"
  | DeleteCall kind string string "exn + unit"
  | ReadPodCall string string "exn + pod"

record ('c, 'a) world =
  cluster :: 'c
  calls :: "'a call list"
  stdout :: "string list"

text \<open>
  The keyword arguments of \<open>create_session\<close> (lines 60-72); \<open>None\<close> is a
  keyword that was not passed.
\<close>

record options =
  vscode_password :: "string option"
  disk_size :: "string option"
  vm_cpu :: "int option"
  vm_memory :: "int option"
  terminal_image :: "string option"
  vm_memory_limit :: "string option"
  vm_cpu_limit :: "string option"
  vm_memory_request :: "string option"
  vm_cpu_request :: "string option"
  kernel_size_limit :: "string option"
  vm_data_size_limit :: "string option"
  vscode_data_size_limit :: "string option"

subsection \<open>Canonical resource names\<close>

text \<open>
  The f-strings of \<open>delete_session\<close> (lines 170-172) and of
  \<open>get_session_status\<close> (line 262).
\<close>

definition pod_name :: "string \<Rightarrow> string" where
  "pod_name session_id = ''lab-session-'' @ session_id"

definition service_name :: "string \<Rightarrow> string" where
  "service_name session_id = ''lab-service-'' @ session_id"

definition secret_name :: "string \<Rightarrow> string" where
  "secret_name session_id = ''lab-session-'' @ session_id @ ''-secrets''"

subsection \<open>Python helpers\<close>

text \<open>
  \<open>str\<close> of an integer (lines 87-88), the truth value of a loaded document
  (line 109), \<open>dict.get\<close> with a default (lines 112-114), which raises
  \<open>AttributeError\<close> on anything but a dictionary, and the comparison of the kind
  with the three string literals (lines 117, 125, 133).
\<close>

fun str_nat :: "nat \<Rightarrow> string" where
  "str_nat n =
     (if n < 10 then [''0123456789'' ! n]
      else str_nat (n div 10) @ [''0123456789'' ! (n mod 10)])"

declare str_nat.simps [simp del]

definition str_int :: "int \<Rightarrow> string" where
  "str_int i = (if i < 0 then CHR ''-'' # str_nat (nat (- i)) else str_nat (nat i))"

fun truthy :: "yaml \<Rightarrow> bool" where
  "truthy YNull = False"
| "truthy (YBool b) = b"
| "truthy (YInt i) = (i \<noteq> 0)"
| "truthy (YStr s) = (s \<noteq> [])"
| "truthy (YList xs) = (xs \<noteq> [])"
| "truthy (YDict kvs) = (kvs \<noteq> [])"

fun py_get :: "yaml \<Rightarrow> string \<Rightarrow> yaml \<Rightarrow> exn + yaml" where
  "py_get (YDict kvs) key dflt = Inr (case map_of kvs key of Some v \<Rightarrow> v | None \<Rightarrow> dflt)"
| "py_get _ key dflt = Inl AttributeError"

fun resource_kind :: "yaml \<Rightarrow> kind option" where
  "resource_kind (YStr s) =
     (if s = ''Pod'' then Some Pod
      else if s = ''Service'' then Some Service
      else if s = ''Secret'' then Some Secret
      else None)"
| "resource_kind _ = None"

fun kind_title :: "kind \<Rightarrow> string" where
  "kind_title Pod = ''Pod''"
| "kind_title Service = ''Service''"
| "kind_title Secret = ''Secret''"

fun kind_key :: "kind \<Rightarrow> string" where
  "kind_key Pod = ''pod''"
| "kind_key Service = ''service''"
| "kind_key Secret = ''secret''"

text \<open>
  The check mark, the ballot cross and the rocket of the printed lines, as their UTF-8
  bytes.
\<close>

definition check_mark :: string where
  "check_mark = [CHR 0xE2, CHR 0x9C, CHR 0x93]"

definition ballot_x :: string where
  "ballot_x = [CHR 0xE2, CHR 0x9C, CHR 0x97]"

definition rocket :: string where
  "rocket = [CHR 0xF0, CHR 0x9F, CHR 0x9A, CHR 0x80]"

definition print :: "string \<Rightarrow> ('c, 'a) world \<Rightarrow> ('c, 'a) world" where
  "print line w = w\<lparr>stdout := stdout w @ [line]\<rparr>"

definition print_lines :: "string list \<Rightarrow> ('c, 'a) world \<Rightarrow> ('c, 'a) world" where
  "print_lines ls w = w\<lparr>stdout := stdout w @ ls\<rparr>"

text \<open>
  A call of the API client: the cluster is replaced by the one the call leaves, and the
  call is appended to the log of calls with its outcome. \<open>caught\<close> is the test of
  the clause \<open>except ApiException as e\<close>: it binds the API exception, and lets
  every other exception pass.
\<close>

definition call_create ::
  "('c, 'a) manager \<Rightarrow> kind \<Rightarrow> yaml \<Rightarrow> ('c, 'a) world \<Rightarrow> (exn + 'a) \<times> ('c, 'a) world" where
  "call_create M k body w =
     (case create_namespaced (core_v1 M) k (namespace M) body (cluster w) of
        (r, c) \<Rightarrow> (r, w\<lparr>cluster := c, calls := calls w @ [CreateCall k (namespace M) body r]\<rparr>))"

definition call_delete ::
  "('c, 'a) manager \<Rightarrow> kind \<Rightarrow> string \<Rightarrow> ('c, 'a) world \<Rightarrow> (exn + unit) \<times> ('c, 'a) world" where
  "call_delete M k name w =
     (case delete_namespaced (core_v1 M) k name (namespace M) (cluster w) of
        (r, c) \<Rightarrow> (r, w\<lparr>cluster := c, calls := calls w @ [DeleteCall k name (namespace M) r]\<rparr>))"


fun caught :: "exn \<Rightarrow> api_exception option" where
  "caught (ApiError e) = Some e"
| "caught _ = None"

subsection \<open>\<open>delete_session\<close> (lines 163-214)\<close>

text \<open>
  Each of the three \<open>try\<close> blocks deletes one resource, appends an item to
  \<open>deleted\<close> on success, and on an \<open>ApiException\<close> prints a warning unless
  the status is 404. An exception of another class is not caught: it leaves the method
  at once, before the later deletions and before the report is printed.
\<close>

definition delete_resource ::
  "('c, 'a) manager \<Rightarrow> kind \<Rightarrow> string \<Rightarrow> string list \<Rightarrow> ('c, 'a) world \<Rightarrow>
     (exn + string list) \<times> ('c, 'a) world" where
  "delete_resource M k name deleted w =
     (case call_delete M k name w of
        (Inr u, w') \<Rightarrow> (Inr (deleted @ [kind_title k @ '': '' @ name]), w')
      | (Inl x, w') \<Rightarrow>
          (case caught x of
             Some e \<Rightarrow>
               (Inr deleted,
                if status e \<noteq> 404
                then print (''Warning: Failed to delete '' @ kind_key k @ '': '' @ reason e) w'
                else w')
           | None \<Rightarrow> (Inl x, w')))"

definition not_found_line :: "string \<Rightarrow> string" where
  "not_found_line session_id = ballot_x @ '' Session '' @ session_id @ '' not found''"

definition deleted_line :: "string \<Rightarrow> string" where
  "deleted_line session_id = check_mark @ '' Deleted session '' @ session_id @ '':''"

definition delete_session ::
  "('c, 'a) manager \<Rightarrow> string \<Rightarrow> ('c, 'a) world \<Rightarrow> (exn + unit) \<times> ('c, 'a) world" where
  "delete_session M session_id w =
     (case delete_resource M Pod (pod_name session_id) [] w of
        (Inl x, w1) \<Rightarrow> (Inl x, w1)
      | (Inr deleted1, w1) \<Rightarrow>
         (case delete_resource M Service (service_name session_id) deleted1 w1 of
            (Inl x, w2) \<Rightarrow> (Inl x, w2)
          | (Inr deleted2, w2) \<Rightarrow>
             (case delete_resource M Secret (secret_name session_id) deleted2 w2 of
                (Inl x, w3) \<Rightarrow> (Inl x, w3)
              | (Inr deleted, w3) \<Rightarrow>
                  (Inr (),
                   if deleted \<noteq> []
                   then print_lines
                          (deleted_line session_id # map (\<lambda>item. ''  - '' @ item) deleted) w3
                   else print (not_found_line session_id) w3))))"

subsection \<open>\<open>create_session\<close> (lines 52-161)\<close>

text \<open>
  The loop of lines 108-145 over the loaded documents. The three \<open>.get\<close> calls
  stand before the \<open>try\<close>, so their \<open>AttributeError\<close> leaves the method
  without a rollback. An \<open>ApiException\<close> of a create call is caught: the failure
  is printed, the session is deleted, and the exception is raised again, unless
  \<open>delete_session\<close> itself raises, and then that exception leaves the method. An
  exception of a create call that is not an \<open>ApiException\<close> is not caught and
  leaves the method without a rollback.
\<close>

fun create_resources ::
  "('c, 'a) manager \<Rightarrow> string \<Rightarrow> yaml list \<Rightarrow> (string \<rightharpoonup> 'a) \<Rightarrow> ('c, 'a) world \<Rightarrow>
     (exn + (string \<rightharpoonup> 'a)) \<times> ('c, 'a) world" where
  "create_resources M session_id [] created w = (Inr created, w)"
| "create_resources M session_id (resource # resources) created w =
     (if \<not> truthy resource then create_resources M session_id resources created w
      else case py_get resource ''kind'' YNull of
        Inl x \<Rightarrow> (Inl x, w)
      | Inr kind \<Rightarrow>
         (case py_get resource ''metadata'' (YDict []) of
            Inl x \<Rightarrow> (Inl x, w)
          | Inr metadata \<Rightarrow>
             (case py_get metadata ''name'' YNull of
                Inl x \<Rightarrow> (Inl x, w)
              | Inr name \<Rightarrow>
                 (case resource_kind kind of
                    None \<Rightarrow> create_resources M session_id resources created w
                  | Some k \<Rightarrow>
                     (case call_create M k resource w of
                        (Inr ack, w') \<Rightarrow>
                          create_resources M session_id resources (created(kind_key k \<mapsto> ack))
                            (print (check_mark @ '' Created '' @ kind_title k @ '': '' @ str_yaml M name) w')
                      | (Inl x, w') \<Rightarrow>
                          (case caught x of
                             None \<Rightarrow> (Inl x, w')
                           | Some e \<Rightarrow>
                              (case delete_session M session_id
                                      (print (ballot_x @ '' Failed to create '' @ str_yaml M kind @
                                              '' '' @ str_yaml M name @ '': '' @ reason e) w') of
                                 (Inl y, w'') \<Rightarrow> (Inl y, w'')
                               | (Inr u, w'') \<Rightarrow> (Inl x, w''))))))))"

text \<open>
  Line 78 is \<open>kwargs.get('vscode_password') or self._generate_password()\<close>: the
  right operand is taken when the left one is \<open>None\<close> or the empty string.
\<close>

definition generate_password :: "('c, 'a) manager \<Rightarrow> string" where
  "generate_password M = token_urlsafe M 32"

definition resolve_password :: "('c, 'a) manager \<Rightarrow> options \<Rightarrow> string" where
  "resolve_password M kwargs =
     (case vscode_password kwargs of
        Some p \<Rightarrow> if p \<noteq> [] then p else generate_password M
      | None \<Rightarrow> generate_password M)"

definition get_default :: "'v option \<Rightarrow> 'v \<Rightarrow> 'v" where
  "get_default v d = (case v of Some x \<Rightarrow> x | None \<Rightarrow> d)"

definition variables :: "string \<Rightarrow> string \<Rightarrow> string \<Rightarrow> string \<Rightarrow> options \<Rightarrow> (string \<rightharpoonup> string)" where
  "variables session_id user_id rootfs_url password kwargs =
     [''SESSION_ID'' \<mapsto> session_id,
      ''USER_ID'' \<mapsto> user_id,
      ''ROOTFS_IMAGE_URL'' \<mapsto> rootfs_url,
      ''VSCODE_PASSWORD'' \<mapsto> password,
      ''DISK_SIZE'' \<mapsto> get_default (disk_size kwargs) ''4G'',
      ''VM_CPU'' \<mapsto> str_int (get_default (vm_cpu kwargs) 1),
      ''VM_MEMORY'' \<mapsto> str_int (get_default (vm_memory kwargs) 1024),
      ''TERMINAL_IMAGE'' \<mapsto> get_default (terminal_image kwargs) ''dozman99/dozlab-terminal:latest'',
      ''VM_MEMORY_LIMIT'' \<mapsto> get_default (vm_memory_limit kwargs) ''2Gi'',
      ''VM_CPU_LIMIT'' \<mapsto> get_default (vm_cpu_limit kwargs) ''1500m'',
      ''VM_MEMORY_REQUEST'' \<mapsto> get_default (vm_memory_request kwargs) ''1Gi'',
      ''VM_CPU_REQUEST'' \<mapsto> get_default (vm_cpu_request kwargs) ''500m'',
      ''KERNEL_SIZE_LIMIT'' \<mapsto> get_default (kernel_size_limit kwargs) ''2Gi'',
      ''VM_DATA_SIZE_LIMIT'' \<mapsto> get_default (vm_data_size_limit kwargs) ''5Gi'',
      ''VSCODE_DATA_SIZE_LIMIT'' \<mapsto> get_default (vscode_data_size_limit kwargs) ''1Gi'']"

definition render_manifest ::
  "('c, 'a) manager \<Rightarrow> string \<Rightarrow> string \<Rightarrow> string \<Rightarrow> options \<Rightarrow> string" where
  "render_manifest M session_id user_id rootfs_url kwargs =
     safe_substitute (template M)
       (variables session_id user_id rootfs_url (resolve_password M kwargs) kwargs)"

definition rule70 :: string where
  "rule70 = replicate 70 CHR ''=''"

definition access_information :: "string \<Rightarrow> string \<Rightarrow> string \<Rightarrow> string \<Rightarrow> string list" where
  "access_information session_id user_id rootfs_url password =
     [CHR 0x0A # rule70,
      rocket @ '' Lab Session Created: '' @ session_id,
      rule70,
      ''User ID: '' @ user_id,
      ''Rootfs: '' @ rootfs_url,
      ''VS Code Password: '' @ password,
      CHR 0x0A # ''Access via port-forward:'',
      ''  kubectl port-forward lab-session-'' @ session_id @ '' 8080:8080 8081:8081'',
      CHR 0x0A # ''Then open:'',
      ''  VS Code:  http://localhost:8080'',
      ''  Terminal: http://localhost:8081'',
      rule70]"

definition create_session ::
  "('c, 'a) manager \<Rightarrow> string \<Rightarrow> string \<Rightarrow> string \<Rightarrow> options \<Rightarrow> ('c, 'a) world \<Rightarrow>
     (exn + (string \<rightharpoonup> 'a)) \<times> ('c, 'a) world" where
  "create_session M session_id user_id rootfs_url kwargs w =
     (case yaml_safe_load_all M (render_manifest M session_id user_id rootfs_url kwargs) of
        Inl err \<Rightarrow> (Inl (YAMLError err), w)
      | Inr resources \<Rightarrow>
          (case create_resources M session_id resources Map.empty w of
             (Inl x, w') \<Rightarrow> (Inl x, w')
           | (Inr created, w') \<Rightarrow>
               (Inr created,
                print_lines
                  (access_information session_id user_id rootfs_url (resolve_password M kwargs)) w')))"

subsection \<open>\<open>get_session_status\<close> (lines 252-295)\<close>





subsection \<open>Vocabulary of the properties\<close>

text \<open>
  The text a segment of the scan stands for, the placeholder names of a text, the
  identifiers of the pattern, and the segments that are plain characters or braced
  placeholders.
\<close>

fun segment_text :: "segment \<Rightarrow> string" where
  "segment_text (Text c) = [c]"
| "segment_text (Match mo) = group mo"

fun placeholder_name :: "segment \<Rightarrow> string option" where
  "placeholder_name (Match (Named n)) = Some n"
| "placeholder_name (Match (Braced n)) = Some n"
| "placeholder_name _ = None"

definition placeholders :: "string \<Rightarrow> string list" where
  "placeholders s = List.map_filter placeholder_name (pattern_scan s)"

definition is_identifier :: "string \<Rightarrow> bool" where
  "is_identifier n \<longleftrightarrow> n \<noteq> [] \<and> id_start (hd n) \<and> list_all id_char n"

fun plain_or_braced :: "segment \<Rightarrow> bool" where
  "plain_or_braced (Text c) = True"
| "plain_or_braced (Match (Braced n)) = True"
| "plain_or_braced (Match _) = False"

text \<open>
  Outcomes of a call: answered by an \<open>ApiException\<close> of status 404, returned,
  refused by an \<open>ApiException\<close> of another status, or ended by an exception that
  is not an \<open>ApiException\<close> and so escapes the \<open>except\<close> clauses. What
  \<open>delete_session\<close> prints, as a function of the three outcomes.
\<close>

definition not_found :: "exn + 'u \<Rightarrow> bool" where
  "not_found r =
     (case r of
        Inl x \<Rightarrow> (case caught x of Some e \<Rightarrow> status e = 404 | None \<Rightarrow> False)
      | Inr u \<Rightarrow> False)"

definition succeeded :: "exn + 'u \<Rightarrow> bool" where
  "succeeded r = (case r of Inl x \<Rightarrow> False | Inr u \<Rightarrow> True)"

definition rejected :: "exn + 'u \<Rightarrow> bool" where
  "rejected r =
     (case r of
        Inl x \<Rightarrow> (case caught x of Some e \<Rightarrow> status e \<noteq> 404 | None \<Rightarrow> False)
      | Inr u \<Rightarrow> False)"

definition escapes :: "exn + 'u \<Rightarrow> bool" where
  "escapes r = (case r of Inl x \<Rightarrow> caught x = None | Inr u \<Rightarrow> False)"

definition warning_lines :: "kind \<Rightarrow> exn + unit \<Rightarrow> string list" where
  "warning_lines k r =
     (case r of
        Inl x \<Rightarrow>
          (case caught x of
             Some e \<Rightarrow> if status e \<noteq> 404
                       then [''Warning: Failed to delete '' @ kind_key k @ '': '' @ reason e] else []
           | None \<Rightarrow> [])
      | Inr u \<Rightarrow> [])"

definition deleted_items :: "kind \<Rightarrow> string \<Rightarrow> exn + unit \<Rightarrow> string list" where
  "deleted_items k name r = (case r of Inl x \<Rightarrow> [] | Inr u \<Rightarrow> [kind_title k @ '': '' @ name])"

definition verdict_lines :: "string \<Rightarrow> string list \<Rightarrow> string list" where
  "verdict_lines session_id deleted =
     (if deleted \<noteq> [] then deleted_line session_id # map (\<lambda>item. ''  - '' @ item) deleted
      else [not_found_line session_id])"

definition is_warning :: "string \<Rightarrow> bool" where
  "is_warning line \<longleftrightarrow> take 9 line = ''Warning: ''"

text \<open>
  \<open>replay\<close> runs a log of calls on the API from a cluster: it gives the cluster the
  calls leave when every call of the log has the outcome the API gives it there, and
  nothing otherwise. A log that replays is a sequence of calls that were made.
\<close>

fun replay :: "('c, 'a) manager \<Rightarrow> 'c \<Rightarrow> 'a call list \<Rightarrow> 'c option" where
  "replay M c [] = Some c"
| "replay M c (CreateCall k ns body r # cs) =
     (if fst (create_namespaced (core_v1 M) k ns body c) = r
      then replay M (snd (create_namespaced (core_v1 M) k ns body c)) cs else None)"
| "replay M c (DeleteCall k name ns r # cs) =
     (if fst (delete_namespaced (core_v1 M) k name ns c) = r
      then replay M (snd (delete_namespaced (core_v1 M) k name ns c)) cs else None)"
| "replay M c (ReadPodCall name ns r # cs) =
     (if fst (read_namespaced_pod (core_v1 M) name ns c) = r
      then replay M (snd (read_namespaced_pod (core_v1 M) name ns c)) cs else None)"

text \<open>
  A create call that was acknowledged, and the dictionary \<open>created\<close> that a log of
  calls leaves behind. \<open>rollback\<close> is the shape of the calls of one
  \<open>delete_session\<close> together with its result: the deletions of the pod, the
  service and the secret under their canonical names, all three when none of them ends
  by an exception that escapes, and then the method returns; or the deletions up to the
  first one that ends so, and then the method raises that exception.
  \<open>failed_run\<close> is the shape of the calls of a loop that raises: acknowledged creates
  only, when a document raised \<open>AttributeError\<close>; acknowledged creates and a create
  whose exception escapes; or acknowledged creates, a create that raised an
  \<open>ApiException\<close>, and the rollback.
\<close>

fun acknowledged :: "'a call \<Rightarrow> bool" where
  "acknowledged (CreateCall k ns body (Inr ack)) = True"
| "acknowledged _ = False"

fun record_ack :: "'a call \<Rightarrow> (string \<rightharpoonup> 'a) \<Rightarrow> (string \<rightharpoonup> 'a)" where
  "record_ack (CreateCall k ns body (Inr ack)) created = created(kind_key k \<mapsto> ack)"
| "record_ack _ created = created"

definition rollback :: "('c, 'a) manager \<Rightarrow> string \<Rightarrow> 'a call list \<Rightarrow> exn + unit \<Rightarrow> bool" where
  "rollback M session_id dels res \<longleftrightarrow>
     (\<exists>r1 r2 r3. \<not> escapes r1 \<and> \<not> escapes r2 \<and> \<not> escapes r3 \<and> res = Inr () \<and>
        dels = [DeleteCall Pod (pod_name session_id) (namespace M) r1,
                DeleteCall Service (service_name session_id) (namespace M) r2,
                DeleteCall Secret (secret_name session_id) (namespace M) r3]) \<or>
     (\<exists>x. caught x = None \<and> res = Inl x \<and>
        (dels = [DeleteCall Pod (pod_name session_id) (namespace M) (Inl x)] \<or>
         (\<exists>r1. \<not> escapes r1 \<and>
            dels = [DeleteCall Pod (pod_name session_id) (namespace M) r1,
                    DeleteCall Service (service_name session_id) (namespace M) (Inl x)]) \<or>
         (\<exists>r1 r2. \<not> escapes r1 \<and> \<not> escapes r2 \<and>
            dels = [DeleteCall Pod (pod_name session_id) (namespace M) r1,
                    DeleteCall Service (service_name session_id) (namespace M) r2,
                    DeleteCall Secret (secret_name session_id) (namespace M) (Inl x)])))"

definition failed_run :: "('c, 'a) manager \<Rightarrow> string \<Rightarrow> 'a call list \<Rightarrow> exn \<Rightarrow> bool" where
  "failed_run M session_id new x \<longleftrightarrow>
     (list_all acknowledged new \<and> x = AttributeError) \<or>
     (\<exists>acked k body. list_all acknowledged acked \<and> caught x = None \<and>
        new = acked @ [CreateCall k (namespace M) body (Inl x)]) \<or>
     (\<exists>acked k body e dels res. list_all acknowledged acked \<and> rollback M session_id dels res \<and>
        new = acked @ CreateCall k (namespace M) body (Inl (ApiError e)) # dels \<and>
        x = (case res of Inr u \<Rightarrow> ApiError e | Inl y \<Rightarrow> y))"

text \<open>
  The contract \<open>delete_session\<close> expects of the API for deletions: a resource is
  gone when its deletion is answered with 404; a deletion that returns leaves the resource
  gone, and no deletion brings a resource back.
\<close>

definition gone :: "('c, 'a) manager \<Rightarrow> kind \<Rightarrow> string \<Rightarrow> 'c \<Rightarrow> bool" where
  "gone M k name c \<longleftrightarrow> not_found (fst (delete_namespaced (core_v1 M) k name (namespace M) c))"

definition delete_contract :: "('c, 'a) manager \<Rightarrow> bool" where
  "delete_contract M \<longleftrightarrow>
     (\<forall>k name c. succeeded (fst (delete_namespaced (core_v1 M) k name (namespace M) c)) \<longrightarrow>
        gone M k name (snd (delete_namespaced (core_v1 M) k name (namespace M) c))) \<and>
     (\<forall>k name k' name' c. gone M k name c \<longrightarrow>
        gone M k name (snd (delete_namespaced (core_v1 M) k' name' (namespace M) c)))"

subsection \<open>An in-memory cluster and concrete inputs\<close>

text \<open>
  A small API to run the manager on: the cluster lists the resources present, the
  resources whose deletion is forbidden, the resources for which the server is not
  reached, and the pods that carry no labels. A call for a resource that is not reached
  raises \<open>MaxRetryError\<close>; a create of a present resource is a conflict (409), a
  delete of a forbidden resource is refused (403), a delete or read of an absent one is
  not found (404). The acknowledgment of a create is the submitted body.
\<close>

record sim_cluster =
  present :: "(kind \<times> string) list"
  locked :: "(kind \<times> string) list"
  offline :: "(kind \<times> string) list"
  unlabelled :: "string list"

definition body_name :: "yaml \<Rightarrow> string" where
  "body_name body =
     (case py_get body ''metadata'' YNull of
        Inr md \<Rightarrow> (case py_get md ''name'' YNull of Inr (YStr n) \<Rightarrow> n | _ \<Rightarrow> [])
      | Inl x \<Rightarrow> [])"

definition sim_create :: "kind \<Rightarrow> string \<Rightarrow> yaml \<Rightarrow> sim_cluster \<Rightarrow> (exn + yaml) \<times> sim_cluster" where
  "sim_create k ns body c =
     (if (k, body_name body) \<in> set (offline c) then (Inl (OtherError ''MaxRetryError''), c)
      else if (k, body_name body) \<in> set (present c)
      then (Inl (ApiError (ApiException 409 ''Conflict'')), c)
      else (Inr body, c\<lparr>present := present c @ [(k, body_name body)]\<rparr>))"

definition sim_delete :: "kind \<Rightarrow> string \<Rightarrow> string \<Rightarrow> sim_cluster \<Rightarrow> (exn + unit) \<times> sim_cluster" where
  "sim_delete k name ns c =
     (if (k, name) \<in> set (offline c) then (Inl (OtherError ''MaxRetryError''), c)
      else if (k, name) \<in> set (locked c) then (Inl (ApiError (ApiException 403 ''Forbidden'')), c)
      else if (k, name) \<in> set (present c)
      then (Inr (), c\<lparr>present := removeAll (k, name) (present c)\<rparr>)
      else (Inl (ApiError (ApiException 404 ''Not Found'')), c))"

definition sim_pod :: pod where
  "sim_pod = \<lparr>pod_labels = Some [''user-id'' \<mapsto> ''alice''],
              pod_creation_timestamp = ''2024-05-01T12:00:00Z'',
              pod_phase = Some ''Pending'',
              pod_container_statuses = None\<rparr>"

definition sim_read :: "string \<Rightarrow> string \<Rightarrow> sim_cluster \<Rightarrow> (exn + pod) \<times> sim_cluster" where
  "sim_read name ns c =
     (if (Pod, name) \<in> set (offline c) then (Inl (OtherError ''MaxRetryError''), c)
      else if (Pod, name) \<in> set (present c)
      then (Inr (if name \<in> set (unlabelled c) then sim_pod\<lparr>pod_labels := None\<rparr> else sim_pod), c)
      else (Inl (ApiError (ApiException 404 ''Not Found'')), c))"

definition sim_api :: "(sim_cluster, yaml) core_v1_api" where
  "sim_api = \<lparr>create_namespaced = sim_create, delete_namespaced = sim_delete,
              read_namespaced_pod = sim_read\<rparr>"

text \<open>
  Templates, the manifests they render to for the session \<open>demo-1\<close>, and the
  documents PyYAML loads from these manifests. \<open>demo_yaml\<close> is the loader on the
  texts used below; any other text used below is not well-formed YAML. \<open>demo_str\<close>
  is \<open>str\<close> on the values printed below, which are strings. The worlds start with
  no call made and nothing printed.
\<close>

definition unlines :: "string list \<Rightarrow> string" where
  "unlines ls = concat (map (\<lambda>l. l @ [CHR 0x0A]) ls)"

definition demo_template :: string where
  "demo_template = unlines
     [''kind: Pod'', ''metadata:'', ''  name: lab-session-${SESSION_ID}'', ''---'',
      ''kind: Service'', ''metadata:'', ''  name: lab-service-${SESSION_ID}'', ''---'',
      ''kind: Secret'', ''metadata:'', ''  name: lab-session-${SESSION_ID}-secrets'',
      ''stringData:'', ''  password: ${VSCODE_PASSWORD}'']"

definition demo_manifest :: string where
  "demo_manifest = unlines
     [''kind: Pod'', ''metadata:'', ''  name: lab-session-demo-1'', ''---'',
      ''kind: Service'', ''metadata:'', ''  name: lab-service-demo-1'', ''---'',
      ''kind: Secret'', ''metadata:'', ''  name: lab-session-demo-1-secrets'',
      ''stringData:'', ''  password: hunter2'']"

definition manifest_doc :: "string \<Rightarrow> string \<Rightarrow> yaml" where
  "manifest_doc k n = YDict [(''kind'', YStr k), (''metadata'', YDict [(''name'', YStr n)])]"

definition demo_resources :: "yaml list" where
  "demo_resources =
     [manifest_doc ''Pod'' ''lab-session-demo-1'',
      manifest_doc ''Service'' ''lab-service-demo-1'',
      YDict [(''kind'', YStr ''Secret''), (''metadata'', YDict [(''name'', YStr ''lab-session-demo-1-secrets'')]),
             (''stringData'', YDict [(''password'', YStr ''hunter2'')])]]"

definition plain_template :: string where
  "plain_template = unlines
     [''kind: Pod'', ''metadata:'', ''  name: lab-session-${SESSION_ID}'', ''---'',
      ''kind: Service'', ''metadata:'', ''  name: lab-service-${SESSION_ID}'']"

definition plain_manifest :: string where
  "plain_manifest = unlines
     [''kind: Pod'', ''metadata:'', ''  name: lab-session-demo-1'', ''---'',
      ''kind: Service'', ''metadata:'', ''  name: lab-service-demo-1'']"

definition plain_resources :: "yaml list" where
  "plain_resources =
     [manifest_doc ''Pod'' ''lab-session-demo-1'',
      manifest_doc ''Service'' ''lab-service-demo-1'']"

definition plain_created :: "string \<rightharpoonup> yaml" where
  "plain_created =
     [''pod'' \<mapsto> manifest_doc ''Pod'' ''lab-session-demo-1'',
      ''service'' \<mapsto> manifest_doc ''Service'' ''lab-service-demo-1'']"

definition configmap_template :: string where
  "configmap_template = unlines [''kind: ConfigMap'', ''metadata:'']"

definition configmap_resources :: "yaml list" where
  "configmap_resources = [YDict [(''kind'', YStr ''ConfigMap''), (''metadata'', YNull)]]"

definition configmap_doc :: yaml where
  "configmap_doc = YDict [(''kind'', YStr ''ConfigMap''), (''metadata'', YDict [(''name'', YStr ''lab-config'')])]"

definition mixed_template :: string where
  "mixed_template = unlines
     [''kind: Pod'', ''metadata:'', ''  name: lab-session-${SESSION_ID}'', ''---'',
      ''kind: ConfigMap'', ''metadata:'', ''  name: lab-config'', ''---'',
      ''kind: Service'', ''metadata:'', ''  name: lab-service-${SESSION_ID}'']"

definition mixed_manifest :: string where
  "mixed_manifest = unlines
     [''kind: Pod'', ''metadata:'', ''  name: lab-session-demo-1'', ''---'',
      ''kind: ConfigMap'', ''metadata:'', ''  name: lab-config'', ''---'',
      ''kind: Service'', ''metadata:'', ''  name: lab-service-demo-1'']"

definition demo_yaml :: "string \<Rightarrow> string + yaml list" where
  "demo_yaml text =
     (if text = demo_manifest then Inr demo_resources
      else if text = plain_manifest then Inr plain_resources
      else if text = mixed_manifest
      then Inr ([manifest_doc ''Pod'' ''lab-session-demo-1''] @ configmap_doc #
                [manifest_doc ''Service'' ''lab-service-demo-1''])
      else if text = configmap_template then Inr configmap_resources
      else Inl ''ParserError'')"

fun demo_str :: "yaml \<Rightarrow> string" where
  "demo_str (YStr s) = s"
| "demo_str YNull = ''None''"
| "demo_str _ = ''?''"

definition demo_manager :: "(sim_cluster, yaml) manager" where
  "demo_manager = \<lparr>namespace = ''default'', core_v1 = sim_api, template = demo_template,
     yaml_safe_load_all = demo_yaml, token_urlsafe = (\<lambda>n. ''generated-token''),
     str_yaml = demo_str\<rparr>"

definition no_options :: options where
  "no_options = \<lparr>vscode_password = None, disk_size = None, vm_cpu = None, vm_memory = None,
     terminal_image = None, vm_memory_limit = None, vm_cpu_limit = None, vm_memory_request = None,
     vm_cpu_request = None, kernel_size_limit = None, vm_data_size_limit = None,
     vscode_data_size_limit = None\<rparr>"

definition demo_url :: string where
  "demo_url = ''https://x/img.ext4''"

definition demo_options :: options where
  "demo_options = no_options\<lparr>vscode_password := Some ''hunter2''\<rparr>"

definition world_of :: "sim_cluster \<Rightarrow> (sim_cluster, yaml) world" where
  "world_of c = \<lparr>cluster = c, calls = [], stdout = []\<rparr>"

definition cluster0 :: "(kind \<times> string) list \<Rightarrow> (kind \<times> string) list \<Rightarrow> sim_cluster" where
  "cluster0 ps ls = \<lparr>present = ps, locked = ls, offline = [], unlabelled = []\<rparr>"

definition world0 :: "(kind \<times> string) list \<Rightarrow> (kind \<times> string) list \<Rightarrow> (sim_cluster, yaml) world" where
  "world0 ps ls = world_of (cluster0 ps ls)"

definition conflict_world :: "(sim_cluster, yaml) world" where
  "conflict_world = world0 [(Service, ''lab-service-demo-1'')] []"

definition offline_world :: "(sim_cluster, yaml) world" where
  "offline_world =
     world_of \<lparr>present = [], locked = [], offline = [(Service, ''lab-service-demo-1'')],
               unlabelled = []\<rparr>"


definition unreachable_world :: "(sim_cluster, yaml) world" where
  "unreachable_world =
     world_of \<lparr>present = [], locked = [], offline = [(Pod, ''lab-session-demo-1'')],
               unlabelled = []\<rparr>"

definition demo_session :: "(kind \<times> string) list" where
  "demo_session =
     [(Pod, ''lab-session-demo-1''), (Service, ''lab-service-demo-1''),
      (Secret, ''lab-session-demo-1-secrets'')]"

section \<open>Properties\<close>

subsection \<open>Naming scheme\<close>

text \<open>
  Claim C4, as stated, fails: the secret name of the session \<open>a\<close> is the pod name
  of the session \<open>a-secrets\<close>, two distinct identifiers.
\<close>

theorem names_collide_counterexample:
  "''a'' \<noteq> ''a-secrets'' \<and> pod_name ''a-secrets'' = secret_name ''a''"
  by (simp add: pod_name_def secret_name_def)

text \<open>
  Claim C4, amended. The three names are functions of the session identifier alone, and
  the scheme is injective kind by kind: two distinct identifiers have distinct pod names,
  distinct service names and distinct secret names. A service name never equals a pod name
  or a secret name of any identifier. The only coincidence across kinds is between a pod
  name and a secret name, exactly when the pod's identifier is the secret's identifier
  followed by \<open>-secrets\<close>.
\<close>

theorem names_injective_per_kind:
  "(pod_name a = pod_name b \<longleftrightarrow> a = b) \<and>
   (service_name a = service_name b \<longleftrightarrow> a = b) \<and>
   (secret_name a = secret_name b \<longleftrightarrow> a = b) \<and>
   service_name a \<noteq> pod_name b \<and>
   service_name a \<noteq> secret_name b \<and>
   (pod_name b = secret_name a \<longleftrightarrow> b = a @ ''-secrets'')"
  by (simp add: pod_name_def service_name_def secret_name_def)

subsection \<open>Template substitution\<close>

text \<open>
  The scan loses no character of its input, its placeholders carry identifiers, and a
  text built from plain characters and braced placeholders scans back into them.
\<close>

lemmas scan_defs = safe_substitute_def pattern_sub_def match_id_def match_braced_def
  id_start_def id_char_def

lemma match_id_split: "match_id s = Some (n, r) \<Longrightarrow> s = n @ r"
  by (auto simp: match_id_def split: list.splits if_splits)

lemma match_braced_split: "match_braced s = Some (n, r) \<Longrightarrow> s = CHR ''{'' # n @ CHR ''}'' # r"
  by (auto simp: match_braced_def split: list.splits if_splits option.splits dest: match_id_split)

lemma id_start_id_char: "id_start c \<Longrightarrow> id_char c"
  by (simp add: id_char_def)

lemma match_id_identifier: "match_id s = Some (n, r) \<Longrightarrow> is_identifier n"
  by (auto simp: match_id_def is_identifier_def list_all_iff id_start_id_char
        split: list.splits if_splits dest: set_takeWhileD)

lemma match_braced_identifier: "match_braced s = Some (n, r) \<Longrightarrow> is_identifier n"
  by (auto simp: match_braced_def split: list.splits if_splits option.splits dest: match_id_identifier)

lemma scan_text: "concat (map segment_text (pattern_scan s)) = s"
proof (induction s rule: pattern_scan.induct)
  case 1
  show ?case by simp
next
  case (2 c s)
  then show ?case
    by (cases s) (auto split: option.splits dest: match_id_split match_braced_split)
qed

lemma scan_plain_prefix:
  "CHR ''$'' \<notin> set u \<Longrightarrow> pattern_scan (u @ s) = map Text u @ pattern_scan s"
  by (induction u) auto

lemma not_id_start_brace: "\<not> id_start CHR ''{''"
  by (simp add: id_start_def)

lemma not_id_char_close: "\<not> id_char CHR ''}''"
  by (simp add: id_char_def id_start_def)

lemma match_id_identifier_close:
  assumes "is_identifier n"
  shows "match_id (n @ CHR ''}'' # s) = Some (n, CHR ''}'' # s)"
proof -
  from assms obtain c n' where n: "n = c # n'" and c: "id_start c" and n': "\<forall>x\<in>set n'. id_char x"
    by (cases n) (auto simp: is_identifier_def list_all_iff)
  from n' have "takeWhile id_char (n' @ CHR ''}'' # s) = n'"
    by (simp add: takeWhile_append2 not_id_char_close)
  moreover from n' have "dropWhile id_char (n' @ CHR ''}'' # s) = CHR ''}'' # s"
    by (simp add: dropWhile_append2 not_id_char_close)
  ultimately show ?thesis using n c by (simp add: match_id_def)
qed

lemma scan_braced:
  assumes "is_identifier n"
  shows "pattern_scan (''${'' @ n @ ''}'' @ s) = Match (Braced n) # pattern_scan s"
  using match_id_identifier_close [OF assms, of s]
  by (simp add: match_id_def match_braced_def not_id_start_brace)

lemma scan_segments_wf:
  "seg \<in> set (pattern_scan s) \<Longrightarrow>
     (case seg of Text c \<Rightarrow> c \<noteq> CHR ''$''
      | Match mo \<Rightarrow> (case mo of Named n \<Rightarrow> is_identifier n | Braced n \<Rightarrow> is_identifier n | _ \<Rightarrow> True))"
proof (induction s rule: pattern_scan.induct)
  case 1
  then show ?case by simp
next
  case (2 c s)
  then show ?case
    by (cases s)
       (auto split: option.splits if_splits dest: match_id_identifier match_braced_identifier)
qed

lemma rescan_segments:
  assumes vals: "\<forall>v\<in>ran mapping. CHR ''$'' \<notin> set v"
    and segs: "\<forall>seg\<in>set segs. plain_or_braced seg \<and>
        (case seg of Text c \<Rightarrow> c \<noteq> CHR ''$''
         | Match mo \<Rightarrow> (case mo of Named n \<Rightarrow> is_identifier n | Braced n \<Rightarrow> is_identifier n | _ \<Rightarrow> True))"
  shows "List.map_filter placeholder_name
           (pattern_scan (concat (map (substitute_segment (convert mapping)) segs))) =
         filter (\<lambda>n. mapping n = None) (List.map_filter placeholder_name segs)"
  using segs
proof (induction segs)
  case Nil
  show ?case by (simp add: List.map_filter_simps)
next
  case (Cons seg segs)
  then have IH: "List.map_filter placeholder_name
           (pattern_scan (concat (map (substitute_segment (convert mapping)) segs))) =
         filter (\<lambda>n. mapping n = None) (List.map_filter placeholder_name segs)"
    by simp
  show ?case
  proof (cases seg)
    case (Text c)
    with Cons.prems have "c \<noteq> CHR ''$''" by simp
    with Text IH show ?thesis by (simp add: List.map_filter_simps)
  next
    case (Match mo)
    with Cons.prems obtain n where mo: "mo = Braced n" and idn: "is_identifier n"
      by (cases mo) auto
    show ?thesis
    proof (cases "mapping n")
      case None
      with Match mo IH scan_braced [OF idn] show ?thesis
        by (simp add: List.map_filter_simps)
    next
      case (Some v)
      with vals have "CHR ''$'' \<notin> set v" by (auto simp: ran_def)
      then have "pattern_scan (v @ concat (map (substitute_segment (convert mapping)) segs)) =
          map Text v @ pattern_scan (concat (map (substitute_segment (convert mapping)) segs))"
        by (rule scan_plain_prefix)
      moreover have "List.map_filter placeholder_name (map Text v @ xs) = List.map_filter placeholder_name xs" for xs
        by (induction v) (simp_all add: List.map_filter_simps)
      ultimately show ?thesis using Match mo Some IH
        by (simp add: List.map_filter_simps)
    qed
  qed
qed

text \<open>
  Claim C5, as stated, fails. The substitution is a single pass and a substituted value
  is not scanned again: with the user identifier \<open>${SESSION_ID}\<close>, the template
  \<open>user: ${USER_ID}\<close> renders to \<open>user: ${SESSION_ID}\<close>, a placeholder
  whose name is a key of the mapping.
\<close>

theorem substituted_value_keeps_placeholder:
  "safe_substitute ''user: ${USER_ID}''
     (variables ''demo-1'' ''${SESSION_ID}'' demo_url ''hunter2'' no_options) = ''user: ${SESSION_ID}'' \<and>
   ''SESSION_ID'' \<in> set (placeholders (safe_substitute ''user: ${USER_ID}''
     (variables ''demo-1'' ''${SESSION_ID}'' demo_url ''hunter2'' no_options))) \<and>
   variables ''demo-1'' ''${SESSION_ID}'' demo_url ''hunter2'' no_options ''SESSION_ID'' = Some ''demo-1''"
proof -
  have out: "safe_substitute ''user: ${USER_ID}''
     (variables ''demo-1'' ''${SESSION_ID}'' demo_url ''hunter2'' no_options) = ''user: ${SESSION_ID}''"
    by (simp add: variables_def scan_defs)
  have "''SESSION_ID'' \<in> set (placeholders ''user: ${SESSION_ID}'')"
    by (simp add: placeholders_def List.map_filter_simps scan_defs)
  moreover have "variables ''demo-1'' ''${SESSION_ID}'' demo_url ''hunter2'' no_options ''SESSION_ID'' =
      Some ''demo-1''"
    by (simp add: variables_def)
  ultimately show ?thesis by (simp only: out)
qed

text \<open>
  Claim C5, amended. The scan cuts the template into plain characters and matches and
  loses nothing of it; the output is the concatenation of what each piece is replaced by;
  every placeholder of the template whose name is a key of the mapping is replaced by the
  value, and every placeholder whose name is not a key is replaced by its own text, with no
  error in any case (the function is total). When no value of the mapping contains a
  dollar sign and every dollar sign of the template opens a braced placeholder, the
  placeholders of the output are exactly the placeholders of the template whose names are
  not keys of the mapping, in their order: none with a name of the mapping is left.
\<close>

theorem safe_substitute_single_pass:
  "concat (map segment_text (pattern_scan tmpl)) = tmpl \<and>
   safe_substitute tmpl mapping =
     concat (map (substitute_segment (convert mapping)) (pattern_scan tmpl)) \<and>
   (\<forall>seg\<in>set (pattern_scan tmpl). \<forall>n. placeholder_name seg = Some n \<longrightarrow>
      substitute_segment (convert mapping) seg =
        (case mapping n of Some v \<Rightarrow> v | None \<Rightarrow> segment_text seg)) \<and>
   ((\<forall>v\<in>ran mapping. CHR ''$'' \<notin> set v) \<and> list_all plain_or_braced (pattern_scan tmpl) \<longrightarrow>
      placeholders (safe_substitute tmpl mapping) =
        filter (\<lambda>n. mapping n = None) (placeholders tmpl))"
proof -
  have a: "concat (map segment_text (pattern_scan tmpl)) = tmpl"
    by (rule scan_text)
  have b: "safe_substitute tmpl mapping =
     concat (map (substitute_segment (convert mapping)) (pattern_scan tmpl))"
    by (simp add: safe_substitute_def pattern_sub_def)
  have c: "substitute_segment (convert mapping) seg =
        (case mapping n of Some v \<Rightarrow> v | None \<Rightarrow> segment_text seg)"
    if "placeholder_name seg = Some n" for seg n
    using that by (cases seg rule: placeholder_name.cases) (auto split: option.splits)
  have d: "placeholders (safe_substitute tmpl mapping) =
        filter (\<lambda>n. mapping n = None) (placeholders tmpl)"
    if v: "\<forall>v\<in>ran mapping. CHR ''$'' \<notin> set v" and p: "list_all plain_or_braced (pattern_scan tmpl)"
  proof -
    have "\<forall>seg\<in>set (pattern_scan tmpl). plain_or_braced seg \<and>
        (case seg of Text c \<Rightarrow> c \<noteq> CHR ''$''
         | Match mo \<Rightarrow> (case mo of Named n \<Rightarrow> is_identifier n | Braced n \<Rightarrow> is_identifier n | _ \<Rightarrow> True))"
      using p scan_segments_wf by (auto simp: list_all_iff)
    from rescan_segments [OF v this] show ?thesis
      by (simp add: placeholders_def b)
  qed
  from a b c d show ?thesis by blast
qed

theorem safe_substitute_single_pass_witness:
  "substitute_segment (convert [''SESSION_ID'' \<mapsto> ''demo-1'']) (Match (Braced ''SESSION_ID'')) = ''demo-1'' \<and>
   placeholders (safe_substitute ''name: lab-session-${SESSION_ID} ${OTHER}''
     [''SESSION_ID'' \<mapsto> ''demo-1'']) = [''OTHER'']"
proof -
  let ?t = "''name: lab-session-${SESSION_ID} ${OTHER}''"
  let ?m = "[''SESSION_ID'' \<mapsto> ''demo-1'']"
  note inst = safe_substitute_single_pass [of ?t ?m]
  have h1: "\<forall>v\<in>ran ?m. CHR ''$'' \<notin> set v" by simp
  have h2: "list_all plain_or_braced (pattern_scan ?t)"
    by (simp add: match_id_def match_braced_def id_start_def id_char_def)
  have pl: "placeholders ?t = [''SESSION_ID'', ''OTHER'']"
    by (simp add: placeholders_def match_id_def match_braced_def id_start_def id_char_def
          List.map_filter_simps)
  have seg: "Match (Braced ''SESSION_ID'') \<in> set (pattern_scan ?t)"
    by (simp add: match_id_def match_braced_def id_start_def id_char_def)
  have "\<forall>seg\<in>set (pattern_scan ?t). \<forall>n. placeholder_name seg = Some n \<longrightarrow>
      substitute_segment (convert ?m) seg = (case ?m n of Some v \<Rightarrow> v | None \<Rightarrow> segment_text seg)"
    by (rule inst [THEN conjunct2, THEN conjunct2, THEN conjunct1])
  from this [rule_format, OF seg, of "''SESSION_ID''"]
  have a: "substitute_segment (convert ?m) (Match (Braced ''SESSION_ID'')) = ''demo-1''"
    by simp
  have "placeholders (safe_substitute ?t ?m) = filter (\<lambda>n. ?m n = None) (placeholders ?t)"
    by (rule inst [THEN conjunct2, THEN conjunct2, THEN conjunct2, THEN mp]) (rule conjI [OF h1 h2])
  then have b: "placeholders (safe_substitute ?t ?m) = [''OTHER'']" by (simp add: pl)
  from a b show ?thesis by (rule conjI)
qed

subsection \<open>Deleting a session\<close>

text \<open>
  \<open>delete_session\<close> in closed form. The answers of the API to the three deletions
  determine the result, the calls logged and the lines printed: the method returns when
  no answer escapes, and raises at the first answer that does.
\<close>

lemma escapes_cases:
  "escapes r \<longleftrightarrow> (\<exists>x. r = Inl x \<and> caught x = None)"
  by (cases r) (auto simp: escapes_def)

lemma delete_resource_eq:
  assumes "delete_namespaced (core_v1 M) k name (namespace M) (cluster w) = (r, c)"
  shows "delete_resource M k name deleted w =
     ((case r of
         Inr u \<Rightarrow> Inr (deleted @ deleted_items k name r)
       | Inl x \<Rightarrow> (case caught x of Some e \<Rightarrow> Inr (deleted @ deleted_items k name r) | None \<Rightarrow> Inl x)),
      w\<lparr>cluster := c,
        calls := calls w @ [DeleteCall k name (namespace M) r],
        stdout := stdout w @ warning_lines k r\<rparr>)"
  using assms
  by (auto simp: delete_resource_def call_delete_def print_def deleted_items_def warning_lines_def
      split: sum.splits option.splits)

lemma delete_resource_kept:
  assumes "delete_namespaced (core_v1 M) k name (namespace M) (cluster w) = (r, c)"
    and "\<not> escapes r"
  shows "delete_resource M k name deleted w =
     (Inr (deleted @ deleted_items k name r),
      w\<lparr>cluster := c,
        calls := calls w @ [DeleteCall k name (namespace M) r],
        stdout := stdout w @ warning_lines k r\<rparr>)"
  using assms(2) unfolding delete_resource_eq [OF assms(1)]
  by (auto simp: escapes_def split: sum.splits option.splits)

lemma delete_resource_raised:
  assumes "delete_namespaced (core_v1 M) k name (namespace M) (cluster w) = (Inl x, c)"
    and "caught x = None"
  shows "delete_resource M k name deleted w =
     (Inl x, w\<lparr>cluster := c, calls := calls w @ [DeleteCall k name (namespace M) (Inl x)]\<rparr>)"
  using assms(2) unfolding delete_resource_eq [OF assms(1)]
  by (simp add: warning_lines_def)

lemma delete_session_returns:
  assumes "delete_namespaced (core_v1 M) Pod (pod_name session_id) (namespace M) (cluster w) = (r1, c1)"
    and "delete_namespaced (core_v1 M) Service (service_name session_id) (namespace M) c1 = (r2, c2)"
    and "delete_namespaced (core_v1 M) Secret (secret_name session_id) (namespace M) c2 = (r3, c3)"
    and "\<not> escapes r1" "\<not> escapes r2" "\<not> escapes r3"
  shows "delete_session M session_id w =
     (Inr (),
      w\<lparr>cluster := c3,
        calls := calls w @
          [DeleteCall Pod (pod_name session_id) (namespace M) r1,
           DeleteCall Service (service_name session_id) (namespace M) r2,
           DeleteCall Secret (secret_name session_id) (namespace M) r3],
        stdout := stdout w @ warning_lines Pod r1 @ warning_lines Service r2 @ warning_lines Secret r3 @
          verdict_lines session_id
            (deleted_items Pod (pod_name session_id) r1 @
             deleted_items Service (service_name session_id) r2 @
             deleted_items Secret (secret_name session_id) r3)\<rparr>)"
proof -
  note s1 = delete_resource_kept [OF assms(1) assms(4), of "[]"]
  define w1 where "w1 = w\<lparr>cluster := c1,
        calls := calls w @ [DeleteCall Pod (pod_name session_id) (namespace M) r1],
        stdout := stdout w @ warning_lines Pod r1\<rparr>"
  have d2: "delete_namespaced (core_v1 M) Service (service_name session_id) (namespace M) (cluster w1) = (r2, c2)"
    using assms(2) by (simp add: w1_def)
  note s2 = delete_resource_kept [OF d2 assms(5)]
  define w2 where "w2 = w1\<lparr>cluster := c2,
        calls := calls w1 @ [DeleteCall Service (service_name session_id) (namespace M) r2],
        stdout := stdout w1 @ warning_lines Service r2\<rparr>"
  have d3: "delete_namespaced (core_v1 M) Secret (secret_name session_id) (namespace M) (cluster w2) = (r3, c3)"
    using assms(3) by (simp add: w2_def)
  note s3 = delete_resource_kept [OF d3 assms(6)]
  show ?thesis
    unfolding delete_session_def s1 w1_def [symmetric] prod.case sum.case s2 w2_def [symmetric] s3
    by (simp add: w1_def w2_def verdict_lines_def print_def print_lines_def)
qed

lemma delete_session_raises_pod:
  assumes "delete_namespaced (core_v1 M) Pod (pod_name session_id) (namespace M) (cluster w) = (Inl x, c1)"
    and "caught x = None"
  shows "delete_session M session_id w =
     (Inl x, w\<lparr>cluster := c1,
        calls := calls w @ [DeleteCall Pod (pod_name session_id) (namespace M) (Inl x)]\<rparr>)"
  unfolding delete_session_def delete_resource_raised [OF assms] by simp

lemma delete_session_raises_service:
  assumes "delete_namespaced (core_v1 M) Pod (pod_name session_id) (namespace M) (cluster w) = (r1, c1)"
    and "delete_namespaced (core_v1 M) Service (service_name session_id) (namespace M) c1 = (Inl x, c2)"
    and "\<not> escapes r1" "caught x = None"
  shows "delete_session M session_id w =
     (Inl x,
      w\<lparr>cluster := c2,
        calls := calls w @
          [DeleteCall Pod (pod_name session_id) (namespace M) r1,
           DeleteCall Service (service_name session_id) (namespace M) (Inl x)],
        stdout := stdout w @ warning_lines Pod r1\<rparr>)"
proof -
  note s1 = delete_resource_kept [OF assms(1) assms(3), of "[]"]
  define w1 where "w1 = w\<lparr>cluster := c1,
        calls := calls w @ [DeleteCall Pod (pod_name session_id) (namespace M) r1],
        stdout := stdout w @ warning_lines Pod r1\<rparr>"
  have d2: "delete_namespaced (core_v1 M) Service (service_name session_id) (namespace M) (cluster w1) = (Inl x, c2)"
    using assms(2) by (simp add: w1_def)
  note s2 = delete_resource_raised [OF d2 assms(4)]
  show ?thesis
    unfolding delete_session_def s1 w1_def [symmetric] prod.case sum.case s2
    by (simp add: w1_def)
qed

lemma delete_session_raises_secret:
  assumes "delete_namespaced (core_v1 M) Pod (pod_name session_id) (namespace M) (cluster w) = (r1, c1)"
    and "delete_namespaced (core_v1 M) Service (service_name session_id) (namespace M) c1 = (r2, c2)"
    and "delete_namespaced (core_v1 M) Secret (secret_name session_id) (namespace M) c2 = (Inl x, c3)"
    and "\<not> escapes r1" "\<not> escapes r2" "caught x = None"
  shows "delete_session M session_id w =
     (Inl x,
      w\<lparr>cluster := c3,
        calls := calls w @
          [DeleteCall Pod (pod_name session_id) (namespace M) r1,
           DeleteCall Service (service_name session_id) (namespace M) r2,
           DeleteCall Secret (secret_name session_id) (namespace M) (Inl x)],
        stdout := stdout w @ warning_lines Pod r1 @ warning_lines Service r2\<rparr>)"
proof -
  note s1 = delete_resource_kept [OF assms(1) assms(4), of "[]"]
  define w1 where "w1 = w\<lparr>cluster := c1,
        calls := calls w @ [DeleteCall Pod (pod_name session_id) (namespace M) r1],
        stdout := stdout w @ warning_lines Pod r1\<rparr>"
  have d2: "delete_namespaced (core_v1 M) Service (service_name session_id) (namespace M) (cluster w1) = (r2, c2)"
    using assms(2) by (simp add: w1_def)
  note s2 = delete_resource_kept [OF d2 assms(5)]
  define w2 where "w2 = w1\<lparr>cluster := c2,
        calls := calls w1 @ [DeleteCall Service (service_name session_id) (namespace M) r2],
        stdout := stdout w1 @ warning_lines Service r2\<rparr>"
  have d3: "delete_namespaced (core_v1 M) Secret (secret_name session_id) (namespace M) (cluster w2) = (Inl x, c3)"
    using assms(3) by (simp add: w2_def)
  note s3 = delete_resource_raised [OF d3 assms(6)]
  show ?thesis
    unfolding delete_session_def s1 w1_def [symmetric] prod.case sum.case s2 w2_def [symmetric] s3
    by (simp add: w1_def w2_def)
qed

lemma report_not_found_iff:
  assumes "\<not> escapes r1" "\<not> escapes r2" "\<not> escapes r3"
  shows "(warning_lines Pod r1 @ warning_lines Service r2 @ warning_lines Secret r3 @
      verdict_lines sid (deleted_items Pod n1 r1 @ deleted_items Service n2 r2 @ deleted_items Secret n3 r3)
      = [not_found_line sid]) \<longleftrightarrow> not_found r1 \<and> not_found r2 \<and> not_found r3"
  using assms
  by (cases r1; cases r2; cases r3)
     (auto simp: warning_lines_def deleted_items_def verdict_lines_def not_found_def escapes_def
        not_found_line_def deleted_line_def ballot_x_def check_mark_def split: option.splits)

lemma report_deleted_iff:
  assumes "\<not> escapes r1" "\<not> escapes r2" "\<not> escapes r3"
  shows "deleted_line sid \<in> set (warning_lines Pod r1 @ warning_lines Service r2 @ warning_lines Secret r3 @
      verdict_lines sid (deleted_items Pod n1 r1 @ deleted_items Service n2 r2 @ deleted_items Secret n3 r3))
     \<longleftrightarrow> succeeded r1 \<or> succeeded r2 \<or> succeeded r3"
  using assms
  by (cases r1; cases r2; cases r3)
     (auto simp: warning_lines_def deleted_items_def verdict_lines_def succeeded_def escapes_def
        not_found_line_def deleted_line_def ballot_x_def check_mark_def split: option.splits)

lemma report_warning_iff:
  assumes "\<not> escapes r1" "\<not> escapes r2" "\<not> escapes r3"
  shows "list_ex is_warning (warning_lines Pod r1 @ warning_lines Service r2 @ warning_lines Secret r3 @
      verdict_lines sid (deleted_items Pod n1 r1 @ deleted_items Service n2 r2 @ deleted_items Secret n3 r3))
     \<longleftrightarrow> rejected r1 \<or> rejected r2 \<or> rejected r3"
  using assms
  by (cases r1; cases r2; cases r3)
     (auto simp: warning_lines_def deleted_items_def verdict_lines_def rejected_def is_warning_def escapes_def
        not_found_line_def deleted_line_def ballot_x_def check_mark_def list_ex_iff split: option.splits)

lemma demo_manager_fields:
  "namespace demo_manager = ''default''"
  "core_v1 demo_manager = sim_api"
  "template demo_manager = demo_template"
  "yaml_safe_load_all demo_manager = demo_yaml"
  "token_urlsafe demo_manager = (\<lambda>n. ''generated-token'')"
  "str_yaml demo_manager = demo_str"
  by (simp_all add: demo_manager_def)

lemmas sim_defs = call_create_def call_delete_def sim_api_def sim_create_def sim_delete_def
  body_name_def world0_def world_of_def cluster0_def manifest_doc_def print_def print_lines_def
  delete_session_def delete_resource_def pod_name_def service_name_def secret_name_def

lemma absent_delete:
  "delete_namespaced (core_v1 demo_manager) k name (namespace demo_manager) (cluster0 [] []) =
     (Inl (ApiError (ApiException 404 ''Not Found'')), cluster0 [] [])"
  by (simp add: demo_manager_fields sim_api_def sim_delete_def cluster0_def)

text \<open>
  Claim C3. Let \<open>r1\<close>, \<open>r2\<close>, \<open>r3\<close> be the answers of
  \<open>delete_namespaced\<close> to the deletion of the pod, the service and the secret under
  their canonical names, the first in the cluster of the call, each next one in the
  cluster the previous deletion leaves. When none of the three is an exception other
  than \<open>ApiException\<close>, \<open>delete_session\<close> makes exactly these three calls,
  leaves the cluster the third one leaves, and returns. What it prints is the single
  line "session not found" exactly when all three answers are not-found; it contains the
  line "deleted session" exactly when some deletion returned; and it contains a warning
  line exactly when some deletion was refused with a status other than 404. So the
  report of the all-absent case differs from every report of a deletion and from every
  report of a refused deletion. A deletion that ends by another exception is different
  again: \<open>delete_session\<close> raises that exception after the calls made so far, and
  prints no verdict.
\<close>

theorem delete_session_report:
  assumes d1: "delete_namespaced (core_v1 M) Pod (pod_name session_id) (namespace M) (cluster w) = (r1, c1)"
    and d2: "delete_namespaced (core_v1 M) Service (service_name session_id) (namespace M) c1 = (r2, c2)"
    and d3: "delete_namespaced (core_v1 M) Secret (secret_name session_id) (namespace M) c2 = (r3, c3)"
  shows "(\<not> escapes r1 \<and> \<not> escapes r2 \<and> \<not> escapes r3 \<longrightarrow>
       (\<exists>out. delete_session M session_id w =
            (Inr (),
             w\<lparr>cluster := c3,
               calls := calls w @
                 [DeleteCall Pod (pod_name session_id) (namespace M) r1,
                  DeleteCall Service (service_name session_id) (namespace M) r2,
                  DeleteCall Secret (secret_name session_id) (namespace M) r3],
               stdout := stdout w @ out\<rparr>) \<and>
          (out = [not_found_line session_id] \<longleftrightarrow> not_found r1 \<and> not_found r2 \<and> not_found r3) \<and>
          (deleted_line session_id \<in> set out \<longleftrightarrow> succeeded r1 \<or> succeeded r2 \<or> succeeded r3) \<and>
          (list_ex is_warning out \<longleftrightarrow> rejected r1 \<or> rejected r2 \<or> rejected r3))) \<and>
     (\<forall>x. r1 = Inl x \<and> caught x = None \<longrightarrow>
        delete_session M session_id w =
          (Inl x,
           w\<lparr>cluster := c1,
             calls := calls w @ [DeleteCall Pod (pod_name session_id) (namespace M) r1]\<rparr>)) \<and>
     (\<forall>x. \<not> escapes r1 \<and> r2 = Inl x \<and> caught x = None \<longrightarrow>
        delete_session M session_id w =
          (Inl x,
           w\<lparr>cluster := c2,
             calls := calls w @
               [DeleteCall Pod (pod_name session_id) (namespace M) r1,
                DeleteCall Service (service_name session_id) (namespace M) r2],
             stdout := stdout w @ warning_lines Pod r1\<rparr>)) \<and>
     (\<forall>x. \<not> escapes r1 \<and> \<not> escapes r2 \<and> r3 = Inl x \<and> caught x = None \<longrightarrow>
        delete_session M session_id w =
          (Inl x,
           w\<lparr>cluster := c3,
             calls := calls w @
               [DeleteCall Pod (pod_name session_id) (namespace M) r1,
                DeleteCall Service (service_name session_id) (namespace M) r2,
                DeleteCall Secret (secret_name session_id) (namespace M) r3],
             stdout := stdout w @ warning_lines Pod r1 @ warning_lines Service r2\<rparr>))"
proof (intro conjI impI allI)
  assume ne: "\<not> escapes r1 \<and> \<not> escapes r2 \<and> \<not> escapes r3"
  then have n: "\<not> escapes r1" "\<not> escapes r2" "\<not> escapes r3" by simp_all
  let ?out = "warning_lines Pod r1 @ warning_lines Service r2 @ warning_lines Secret r3 @
         verdict_lines session_id
           (deleted_items Pod (pod_name session_id) r1 @
            deleted_items Service (service_name session_id) r2 @
            deleted_items Secret (secret_name session_id) r3)"
  show "\<exists>out. delete_session M session_id w =
            (Inr (),
             w\<lparr>cluster := c3,
               calls := calls w @
                 [DeleteCall Pod (pod_name session_id) (namespace M) r1,
                  DeleteCall Service (service_name session_id) (namespace M) r2,
                  DeleteCall Secret (secret_name session_id) (namespace M) r3],
               stdout := stdout w @ out\<rparr>) \<and>
          (out = [not_found_line session_id] \<longleftrightarrow> not_found r1 \<and> not_found r2 \<and> not_found r3) \<and>
          (deleted_line session_id \<in> set out \<longleftrightarrow> succeeded r1 \<or> succeeded r2 \<or> succeeded r3) \<and>
          (list_ex is_warning out \<longleftrightarrow> rejected r1 \<or> rejected r2 \<or> rejected r3)"
    by (intro exI [of _ ?out] conjI)
       (rule delete_session_returns [OF d1 d2 d3 n], rule report_not_found_iff [OF n],
        rule report_deleted_iff [OF n], rule report_warning_iff [OF n])
next
  fix x
  assume "r1 = Inl x \<and> caught x = None"
  then show "delete_session M session_id w =
          (Inl x,
           w\<lparr>cluster := c1,
             calls := calls w @ [DeleteCall Pod (pod_name session_id) (namespace M) r1]\<rparr>)"
    using delete_session_raises_pod [of M session_id w x c1] d1 by simp
next
  fix x
  assume "\<not> escapes r1 \<and> r2 = Inl x \<and> caught x = None"
  then show "delete_session M session_id w =
          (Inl x,
           w\<lparr>cluster := c2,
             calls := calls w @
               [DeleteCall Pod (pod_name session_id) (namespace M) r1,
                DeleteCall Service (service_name session_id) (namespace M) r2],
             stdout := stdout w @ warning_lines Pod r1\<rparr>)"
    using delete_session_raises_service [of M session_id w r1 c1 x c2] d1 d2 by simp
next
  fix x
  assume "\<not> escapes r1 \<and> \<not> escapes r2 \<and> r3 = Inl x \<and> caught x = None"
  then show "delete_session M session_id w =
          (Inl x,
           w\<lparr>cluster := c3,
             calls := calls w @
               [DeleteCall Pod (pod_name session_id) (namespace M) r1,
                DeleteCall Service (service_name session_id) (namespace M) r2,
                DeleteCall Secret (secret_name session_id) (namespace M) r3],
             stdout := stdout w @ warning_lines Pod r1 @ warning_lines Service r2\<rparr>)"
    using delete_session_raises_secret [of M session_id w r1 c1 r2 c2 x c3] d1 d2 d3 by simp
qed

theorem delete_session_report_witness:
  "delete_session demo_manager ''demo-1'' (world0 [] []) =
     (Inr (),
      (world0 [] [])\<lparr>calls :=
         [DeleteCall Pod (pod_name ''demo-1'') ''default'' (Inl (ApiError (ApiException 404 ''Not Found''))),
          DeleteCall Service (service_name ''demo-1'') ''default''
            (Inl (ApiError (ApiException 404 ''Not Found''))),
          DeleteCall Secret (secret_name ''demo-1'') ''default''
            (Inl (ApiError (ApiException 404 ''Not Found'')))],
         stdout := [not_found_line ''demo-1'']\<rparr>) \<and>
   delete_session demo_manager ''demo-1'' unreachable_world =
     (Inl (OtherError ''MaxRetryError''),
      unreachable_world\<lparr>calls :=
         [DeleteCall Pod (pod_name ''demo-1'') ''default'' (Inl (OtherError ''MaxRetryError''))]\<rparr>)"
proof -
  let ?nf = "Inl (ApiError (ApiException 404 ''Not Found'')) :: exn + unit"
  have cl: "cluster (world0 [] []) = cluster0 [] []" by (simp add: world0_def world_of_def)
  have d: "delete_namespaced (core_v1 demo_manager) Pod (pod_name ''demo-1'') (namespace demo_manager)
      (cluster (world0 [] [])) = (?nf, cluster0 [] [])"
    by (simp only: cl absent_delete)
  note rep = delete_session_report [OF d absent_delete absent_delete]
  have ne: "\<not> escapes ?nf \<and> \<not> escapes ?nf \<and> \<not> escapes ?nf" by (simp add: escapes_def)
  have nf: "not_found ?nf \<and> not_found ?nf \<and> not_found ?nf" by (simp add: not_found_def)
  from rep [THEN conjunct1, rule_format, OF ne] obtain out where
    out: "delete_session demo_manager ''demo-1'' (world0 [] []) =
            (Inr (),
             (world0 [] [])\<lparr>cluster := cluster0 [] [],
               calls := calls (world0 [] []) @
                 [DeleteCall Pod (pod_name ''demo-1'') (namespace demo_manager) ?nf,
                  DeleteCall Service (service_name ''demo-1'') (namespace demo_manager) ?nf,
                  DeleteCall Secret (secret_name ''demo-1'') (namespace demo_manager) ?nf],
               stdout := stdout (world0 [] []) @ out\<rparr>)"
    and iff: "out = [not_found_line ''demo-1''] \<longleftrightarrow> not_found ?nf \<and> not_found ?nf \<and> not_found ?nf"
    by blast
  from iff nf have "out = [not_found_line ''demo-1'']" by simp
  with out have a: "delete_session demo_manager ''demo-1'' (world0 [] []) =
     (Inr (),
      (world0 [] [])\<lparr>calls :=
         [DeleteCall Pod (pod_name ''demo-1'') ''default'' ?nf,
          DeleteCall Service (service_name ''demo-1'') ''default'' ?nf,
          DeleteCall Secret (secret_name ''demo-1'') ''default'' ?nf],
         stdout := [not_found_line ''demo-1'']\<rparr>)"
    by (simp add: demo_manager_fields world0_def world_of_def)
  let ?x = "OtherError ''MaxRetryError''"
  let ?c = "cluster unreachable_world"
  have u1: "delete_namespaced (core_v1 demo_manager) Pod (pod_name ''demo-1'') (namespace demo_manager) ?c =
      (Inl ?x, ?c)"
    by (simp add: demo_manager_fields sim_api_def sim_delete_def unreachable_world_def world_of_def
          pod_name_def)
  obtain r2 c2 where u2: "delete_namespaced (core_v1 demo_manager) Service (service_name ''demo-1'')
      (namespace demo_manager) ?c = (r2, c2)"
    by (metis surj_pair)
  obtain r3 c3 where u3: "delete_namespaced (core_v1 demo_manager) Secret (secret_name ''demo-1'')
      (namespace demo_manager) c2 = (r3, c3)"
    by (metis surj_pair)
  have "Inl ?x = (Inl ?x :: exn + unit) \<and> caught ?x = None" by simp
  from delete_session_report [OF u1 u2 u3, THEN conjunct2, THEN conjunct1, rule_format, OF this]
  have b: "delete_session demo_manager ''demo-1'' unreachable_world =
     (Inl ?x,
      unreachable_world\<lparr>calls :=
         [DeleteCall Pod (pod_name ''demo-1'') ''default'' (Inl ?x)]\<rparr>)"
    by (simp add: demo_manager_fields unreachable_world_def world_of_def)
  from a b show ?thesis by (rule conjI)
qed

lemma removed_not_escapes: "succeeded r \<or> not_found r \<Longrightarrow> \<not> escapes r"
  by (cases r) (auto simp: succeeded_def not_found_def escapes_def split: option.splits)

lemma not_found_cases: "not_found r \<Longrightarrow> \<exists>e. r = Inl (ApiError e) \<and> status e = 404"
  by (cases r) (auto simp: not_found_def split: option.splits elim: caught.elims)

lemma demo_delete_contract: "delete_contract demo_manager"
  unfolding delete_contract_def gone_def
  by (auto simp: demo_manager_fields sim_api_def sim_delete_def not_found_def succeeded_def)

text \<open>
  Claim C7. Under the deletion contract of the API, take a call of
  \<open>delete_session\<close> in which each of the three deletions of
  \<open>delete_namespaced\<close> returned or was answered not-found. This call returns and
  leaves the cluster the third deletion leaves. In that cluster
  \<open>delete_namespaced\<close> answers the deletion of the pod, of the service and of the
  secret with status 404, and the second call of \<open>delete_session\<close> makes these
  three calls, prints the single line "session not found", and returns: it raises
  nothing.
\<close>

theorem delete_session_twice:
  assumes contract: "delete_contract M"
    and d1: "delete_namespaced (core_v1 M) Pod (pod_name session_id) (namespace M) (cluster w) = (r1, c1)"
    and d2: "delete_namespaced (core_v1 M) Service (service_name session_id) (namespace M) c1 = (r2, c2)"
    and d3: "delete_namespaced (core_v1 M) Secret (secret_name session_id) (namespace M) c2 = (r3, c3)"
    and removed: "succeeded r1 \<or> not_found r1" "succeeded r2 \<or> not_found r2"
      "succeeded r3 \<or> not_found r3"
  shows "\<exists>w1 e1 e2 e3 c4 c5 c6.
     delete_session M session_id w = (Inr (), w1) \<and> cluster w1 = c3 \<and>
     delete_namespaced (core_v1 M) Pod (pod_name session_id) (namespace M) c3 = (Inl (ApiError e1), c4) \<and>
     delete_namespaced (core_v1 M) Service (service_name session_id) (namespace M) c4 = (Inl (ApiError e2), c5) \<and>
     delete_namespaced (core_v1 M) Secret (secret_name session_id) (namespace M) c5 = (Inl (ApiError e3), c6) \<and>
     status e1 = 404 \<and> status e2 = 404 \<and> status e3 = 404 \<and>
     delete_session M session_id w1 =
       (Inr (),
        w1\<lparr>cluster := c6,
           calls := calls w1 @
             [DeleteCall Pod (pod_name session_id) (namespace M) (Inl (ApiError e1)),
              DeleteCall Service (service_name session_id) (namespace M) (Inl (ApiError e2)),
              DeleteCall Secret (secret_name session_id) (namespace M) (Inl (ApiError e3))],
           stdout := stdout w1 @ [not_found_line session_id]\<rparr>)"
proof -
  let ?del = "\<lambda>k name. delete_namespaced (core_v1 M) k name (namespace M)"
  note n = removed_not_escapes [OF removed(1)] removed_not_escapes [OF removed(2)]
    removed_not_escapes [OF removed(3)]
  define w1 where "w1 = snd (delete_session M session_id w)"
  have first: "delete_session M session_id w = (Inr (), w1)" and cl: "cluster w1 = c3"
    by (simp_all add: w1_def delete_session_returns [OF d1 d2 d3 n])
  have after: "gone M k name c'" if "?del k name c = (r, c')" "succeeded r \<or> not_found r" for k name c r c'
  proof (cases "succeeded r")
    case True
    with contract that(1) show ?thesis
      unfolding delete_contract_def by (metis fst_conv snd_conv)
  next
    case False
    with that have "gone M k name c" by (simp add: gone_def)
    with contract that(1) show ?thesis
      unfolding delete_contract_def by (metis snd_conv)
  qed
  have stable: "gone M k name c'" if "gone M k name c" "?del k' name' c = (r, c')" for k name k' name' c r c'
    using contract that unfolding delete_contract_def by (metis snd_conv)
  have g1: "gone M Pod (pod_name session_id) c3"
    by (rule stable [OF stable [OF after [OF d1 removed(1)] d2] d3])
  have g2: "gone M Service (service_name session_id) c3"
    by (rule stable [OF after [OF d2 removed(2)] d3])
  have g3: "gone M Secret (secret_name session_id) c3"
    by (rule after [OF d3 removed(3)])
  obtain q1 c4 where e1: "?del Pod (pod_name session_id) c3 = (q1, c4)" by (metis surj_pair)
  obtain q2 c5 where e2: "?del Service (service_name session_id) c4 = (q2, c5)" by (metis surj_pair)
  obtain q3 c6 where e3: "?del Secret (secret_name session_id) c5 = (q3, c6)" by (metis surj_pair)
  have nf1: "not_found q1" using g1 e1 by (simp add: gone_def)
  have "gone M Service (service_name session_id) c4" by (rule stable [OF g2 e1])
  then have nf2: "not_found q2" using e2 by (simp add: gone_def)
  have "gone M Secret (secret_name session_id) c5" by (rule stable [OF stable [OF g3 e1] e2])
  then have nf3: "not_found q3" using e3 by (simp add: gone_def)
  from not_found_cases [OF nf1] obtain x1 where x1: "q1 = Inl (ApiError x1)" "status x1 = 404" by blast
  from not_found_cases [OF nf2] obtain x2 where x2: "q2 = Inl (ApiError x2)" "status x2 = 404" by blast
  from not_found_cases [OF nf3] obtain x3 where x3: "q3 = Inl (ApiError x3)" "status x3 = 404" by blast
  have m: "\<not> escapes q1" "\<not> escapes q2" "\<not> escapes q3"
    using nf1 nf2 nf3 by (simp_all add: removed_not_escapes)
  have out: "warning_lines Pod q1 @ warning_lines Service q2 @ warning_lines Secret q3 @
      verdict_lines session_id (deleted_items Pod (pod_name session_id) q1 @
        deleted_items Service (service_name session_id) q2 @
        deleted_items Secret (secret_name session_id) q3) = [not_found_line session_id]"
    using nf1 nf2 nf3 by (simp only: report_not_found_iff [OF m])
  have second: "delete_session M session_id w1 =
       (Inr (),
        w1\<lparr>cluster := c6,
           calls := calls w1 @
             [DeleteCall Pod (pod_name session_id) (namespace M) (Inl (ApiError x1)),
              DeleteCall Service (service_name session_id) (namespace M) (Inl (ApiError x2)),
              DeleteCall Secret (secret_name session_id) (namespace M) (Inl (ApiError x3))],
           stdout := stdout w1 @ [not_found_line session_id]\<rparr>)"
    using delete_session_returns [OF e1 [folded cl] e2 e3 m] out by (simp add: x1 x2 x3)
  show ?thesis
    apply (rule exI [of _ w1], rule exI [of _ x1], rule exI [of _ x2], rule exI [of _ x3])
    apply (rule exI [of _ c4], rule exI [of _ c5], rule exI [of _ c6])
    using first cl e1 e2 e3 x1 x2 x3 second by simp
qed

theorem delete_session_twice_witness:
  "fst (delete_session demo_manager ''demo-1''
      (snd (delete_session demo_manager ''demo-1'' (world0 demo_session [])))) = Inr () \<and>
   stdout (snd (delete_session demo_manager ''demo-1''
      (snd (delete_session demo_manager ''demo-1'' (world0 demo_session []))))) =
   stdout (snd (delete_session demo_manager ''demo-1'' (world0 demo_session []))) @
     [not_found_line ''demo-1'']"
proof -
  let ?ok = "Inr () :: exn + unit"
  have d1: "delete_namespaced (core_v1 demo_manager) Pod (pod_name ''demo-1'') (namespace demo_manager)
      (cluster (world0 demo_session [])) =
      (?ok, cluster0 [(Service, ''lab-service-demo-1''), (Secret, ''lab-session-demo-1-secrets'')] [])"
    by (simp add: demo_manager_fields sim_api_def sim_delete_def world0_def world_of_def cluster0_def
          demo_session_def pod_name_def)
  have d2: "delete_namespaced (core_v1 demo_manager) Service (service_name ''demo-1'') (namespace demo_manager)
      (cluster0 [(Service, ''lab-service-demo-1''), (Secret, ''lab-session-demo-1-secrets'')] []) =
      (?ok, cluster0 [(Secret, ''lab-session-demo-1-secrets'')] [])"
    by (simp add: demo_manager_fields sim_api_def sim_delete_def cluster0_def service_name_def)
  have d3: "delete_namespaced (core_v1 demo_manager) Secret (secret_name ''demo-1'') (namespace demo_manager)
      (cluster0 [(Secret, ''lab-session-demo-1-secrets'')] []) = (?ok, cluster0 [] [])"
    by (simp add: demo_manager_fields sim_api_def sim_delete_def cluster0_def secret_name_def)
  have ok: "succeeded ?ok \<or> not_found ?ok" by (simp add: succeeded_def)
  from delete_session_twice [OF demo_delete_contract d1 d2 d3 ok ok ok] show ?thesis by auto
qed

subsection \<open>Creating a session\<close>

text \<open>
  The calls of one \<open>delete_session\<close> are a rollback that replays on the API. One
  round of the loop either skips the document, raises \<open>AttributeError\<close>, or submits
  the document. A run of the loop that returns has made acknowledged creates only; a run
  that raises is a failed run; and the calls of either replay on the API and lead to the
  cluster the run leaves.
\<close>

lemma delete_session_run:
  "\<exists>dels. calls (snd (delete_session M session_id w)) = calls w @ dels \<and>
     replay M (cluster w) dels = Some (cluster (snd (delete_session M session_id w))) \<and>
     rollback M session_id dels (fst (delete_session M session_id w))"
proof -
  obtain r1 c1 where d1:
    "delete_namespaced (core_v1 M) Pod (pod_name session_id) (namespace M) (cluster w) = (r1, c1)"
    by (metis surj_pair)
  obtain r2 c2 where d2:
    "delete_namespaced (core_v1 M) Service (service_name session_id) (namespace M) c1 = (r2, c2)"
    by (metis surj_pair)
  obtain r3 c3 where d3:
    "delete_namespaced (core_v1 M) Secret (secret_name session_id) (namespace M) c2 = (r3, c3)"
    by (metis surj_pair)
  show ?thesis
  proof (cases "escapes r1")
    case True
    then obtain x where x: "r1 = Inl x" "caught x = None" by (auto simp: escapes_cases)
    note eq = delete_session_raises_pod [OF d1 [unfolded x(1)] x(2)]
    show ?thesis
      by (rule exI [of _ "[DeleteCall Pod (pod_name session_id) (namespace M) (Inl x)]"])
         (simp add: eq rollback_def x d1 [unfolded x(1)])
  next
    case n1: False
    show ?thesis
    proof (cases "escapes r2")
      case True
      then obtain x where x: "r2 = Inl x" "caught x = None" by (auto simp: escapes_cases)
      note eq = delete_session_raises_service [OF d1 d2 [unfolded x(1)] n1 x(2)]
      have "rollback M session_id
          [DeleteCall Pod (pod_name session_id) (namespace M) r1,
           DeleteCall Service (service_name session_id) (namespace M) (Inl x)] (Inl x)"
        unfolding rollback_def using n1 x(2) by blast
      then show ?thesis
        by (intro exI [of _ "[DeleteCall Pod (pod_name session_id) (namespace M) r1,
           DeleteCall Service (service_name session_id) (namespace M) (Inl x)]"])
           (simp add: eq d1 d2 [unfolded x(1)])
    next
      case n2: False
      show ?thesis
      proof (cases "escapes r3")
        case True
        then obtain x where x: "r3 = Inl x" "caught x = None" by (auto simp: escapes_cases)
        note eq = delete_session_raises_secret [OF d1 d2 d3 [unfolded x(1)] n1 n2 x(2)]
        have "rollback M session_id
          [DeleteCall Pod (pod_name session_id) (namespace M) r1,
           DeleteCall Service (service_name session_id) (namespace M) r2,
           DeleteCall Secret (secret_name session_id) (namespace M) (Inl x)] (Inl x)"
          unfolding rollback_def using n1 n2 x(2) by blast
        then show ?thesis
          by (intro exI [of _ "[DeleteCall Pod (pod_name session_id) (namespace M) r1,
           DeleteCall Service (service_name session_id) (namespace M) r2,
           DeleteCall Secret (secret_name session_id) (namespace M) (Inl x)]"])
             (simp add: eq d1 d2 d3 [unfolded x(1)])
      next
        case n3: False
        note eq = delete_session_returns [OF d1 d2 d3 n1 n2 n3]
        have "rollback M session_id
          [DeleteCall Pod (pod_name session_id) (namespace M) r1,
           DeleteCall Service (service_name session_id) (namespace M) r2,
           DeleteCall Secret (secret_name session_id) (namespace M) r3] (Inr ())"
          unfolding rollback_def using n1 n2 n3 by blast
        then show ?thesis
          by (intro exI [of _ "[DeleteCall Pod (pod_name session_id) (namespace M) r1,
           DeleteCall Service (service_name session_id) (namespace M) r2,
           DeleteCall Secret (secret_name session_id) (namespace M) r3]"])
             (simp add: eq d1 d2 d3)
      qed
    qed
  qed
qed

lemma py_get_error: "py_get y key dflt = Inl x \<Longrightarrow> x = AttributeError"
  by (cases y) auto

lemma create_resources_step:
  assumes "truthy resource"
    and "py_get resource ''kind'' YNull = Inr kind"
    and "py_get resource ''metadata'' (YDict []) = Inr metadata"
    and "py_get metadata ''name'' YNull = Inr name"
    and "resource_kind kind = Some k"
    and "create_namespaced (core_v1 M) k (namespace M) resource (cluster w) = (res, c)"
  shows "create_resources M session_id (resource # resources) created w =
     (case res of
        Inr ack \<Rightarrow>
          create_resources M session_id resources (created(kind_key k \<mapsto> ack))
            (w\<lparr>cluster := c,
               calls := calls w @ [CreateCall k (namespace M) resource res],
               stdout := stdout w @ [check_mark @ '' Created '' @ kind_title k @ '': '' @ str_yaml M name]\<rparr>)
      | Inl x \<Rightarrow>
          (case caught x of
             None \<Rightarrow>
               (Inl x, w\<lparr>cluster := c, calls := calls w @ [CreateCall k (namespace M) resource res]\<rparr>)
           | Some e \<Rightarrow>
               (case delete_session M session_id
                  (w\<lparr>cluster := c,
                     calls := calls w @ [CreateCall k (namespace M) resource res],
                     stdout := stdout w @ [ballot_x @ '' Failed to create '' @ str_yaml M kind @ '' '' @
                                     str_yaml M name @ '': '' @ reason e]\<rparr>) of
                  (Inl y, w'') \<Rightarrow> (Inl y, w'')
                | (Inr u, w'') \<Rightarrow> (Inl x, w''))))"
  using assms by (simp add: call_create_def print_def split: sum.splits option.splits)

lemma create_resources_skip:
  assumes "\<not> truthy resource \<or>
     (py_get resource ''kind'' YNull = Inr kind \<and>
      py_get resource ''metadata'' (YDict []) = Inr metadata \<and>
      py_get metadata ''name'' YNull = Inr name \<and>
      resource_kind kind = None)"
  shows "create_resources M session_id (resource # resources) created w =
         create_resources M session_id resources created w"
  using assms by auto

lemma create_resources_attribute_error:
  assumes "truthy resource"
    and "py_get resource ''kind'' YNull = Inl x \<or>
         (py_get resource ''kind'' YNull = Inr kind \<and> py_get resource ''metadata'' (YDict []) = Inl x) \<or>
         (py_get resource ''kind'' YNull = Inr kind \<and> py_get resource ''metadata'' (YDict []) = Inr metadata \<and>
          py_get metadata ''name'' YNull = Inl x)"
  shows "create_resources M session_id (resource # resources) created w = (Inl AttributeError, w)"
  using assms by (auto dest: py_get_error)

lemma resource_cases [case_names skip raise submit]:
  obtains
    (skip) kind metadata name where
      "\<not> truthy resource \<or>
       (py_get resource ''kind'' YNull = Inr kind \<and>
        py_get resource ''metadata'' (YDict []) = Inr metadata \<and>
        py_get metadata ''name'' YNull = Inr name \<and>
        resource_kind kind = None)"
  | (raise) x kind metadata where
      "truthy resource"
      "py_get resource ''kind'' YNull = Inl x \<or>
       (py_get resource ''kind'' YNull = Inr kind \<and> py_get resource ''metadata'' (YDict []) = Inl x) \<or>
       (py_get resource ''kind'' YNull = Inr kind \<and> py_get resource ''metadata'' (YDict []) = Inr metadata \<and>
        py_get metadata ''name'' YNull = Inl x)"
  | (submit) kind metadata name k where
      "truthy resource"
      "py_get resource ''kind'' YNull = Inr kind"
      "py_get resource ''metadata'' (YDict []) = Inr metadata"
      "py_get metadata ''name'' YNull = Inr name"
      "resource_kind kind = Some k"
proof (cases "truthy resource")
  case False
  then show ?thesis using skip by blast
next
  case True
  show ?thesis
  proof (cases "py_get resource ''kind'' YNull")
    case (Inl x)
    with True show ?thesis using raise by blast
  next
    case kind: (Inr kind)
    show ?thesis
    proof (cases "py_get resource ''metadata'' (YDict [])")
      case (Inl x)
      with True kind show ?thesis using raise by blast
    next
      case metadata: (Inr metadata)
      show ?thesis
      proof (cases "py_get metadata ''name'' YNull")
        case (Inl x)
        with True kind metadata show ?thesis using raise by blast
      next
        case name: (Inr name)
        show ?thesis
        proof (cases "resource_kind kind")
          case None
          with kind metadata name show ?thesis using skip by blast
        next
          case (Some k)
          with True kind metadata name show ?thesis using submit by blast
        qed
      qed
    qed
  qed
qed

lemma create_resources_success:
  "create_resources M session_id resources created w = (Inr created', w') \<Longrightarrow>
   \<exists>new out. calls w' = calls w @ new \<and> stdout w' = stdout w @ out \<and>
     replay M (cluster w) new = Some (cluster w') \<and>
     list_all acknowledged new \<and> created' = fold record_ack new created"
proof (induction resources arbitrary: created w)
  case Nil
  then show ?case by simp
next
  case (Cons resource resources)
  show ?case
  proof (cases resource rule: resource_cases)
    case skip
    from Cons.prems have "create_resources M session_id resources created w = (Inr created', w')"
      by (simp only: create_resources_skip [OF skip])
    from Cons.IH [OF this] show ?thesis .
  next
    case raise
    from Cons.prems show ?thesis
      by (simp only: create_resources_attribute_error [OF raise]) simp
  next
    case (submit kind metadata name k)
    obtain res c where gw: "create_namespaced (core_v1 M) k (namespace M) resource (cluster w) = (res, c)"
      by (metis surj_pair)
    note step = create_resources_step [OF submit gw, of session_id resources created]
    show ?thesis
    proof (cases res)
      case (Inl x)
      with Cons.prems step show ?thesis by (auto split: option.splits prod.splits sum.splits)
    next
      case (Inr ack)
      define w1 where "w1 = w\<lparr>cluster := c,
               calls := calls w @ [CreateCall k (namespace M) resource res],
               stdout := stdout w @ [check_mark @ '' Created '' @ kind_title k @ '': '' @ str_yaml M name]\<rparr>"
      from Cons.prems step Inr
      have "create_resources M session_id resources (created(kind_key k \<mapsto> ack)) w1 = (Inr created', w')"
        by (simp add: w1_def)
      from Cons.IH [OF this] obtain new out where
        "calls w' = calls w1 @ new" "stdout w' = stdout w1 @ out"
        "replay M (cluster w1) new = Some (cluster w')" "list_all acknowledged new"
        "created' = fold record_ack new (created(kind_key k \<mapsto> ack))"
        by blast
      then have "calls w' = calls w @ (CreateCall k (namespace M) resource (Inr ack) # new)"
        "stdout w' = stdout w @ ((check_mark @ '' Created '' @ kind_title k @ '': '' @ str_yaml M name) # out)"
        "replay M (cluster w) (CreateCall k (namespace M) resource (Inr ack) # new) = Some (cluster w')"
        "list_all acknowledged (CreateCall k (namespace M) resource (Inr ack) # new)"
        "created' = fold record_ack (CreateCall k (namespace M) resource (Inr ack) # new) created"
        using gw by (simp_all add: w1_def Inr)
      then show ?thesis by blast
    qed
  qed
qed

lemma failed_run_Cons:
  assumes "failed_run M session_id new x" "acknowledged ev"
  shows "failed_run M session_id (ev # new) x"
proof -
  from assms(1) consider
    (doc) "list_all acknowledged new" "x = AttributeError"
  | (esc) acked k body where "list_all acknowledged acked" "caught x = None"
      "new = acked @ [CreateCall k (namespace M) body (Inl x)]"
  | (api) acked k body e dels res where "list_all acknowledged acked" "rollback M session_id dels res"
      "new = acked @ CreateCall k (namespace M) body (Inl (ApiError e)) # dels"
      "x = (case res of Inr u \<Rightarrow> ApiError e | Inl y \<Rightarrow> y)"
    unfolding failed_run_def by blast
  then show ?thesis
  proof cases
    case doc
    with assms(2) show ?thesis by (simp add: failed_run_def)
  next
    case esc
    with assms(2) have "list_all acknowledged (ev # acked)" "caught x = None"
      "ev # new = (ev # acked) @ [CreateCall k (namespace M) body (Inl x)]"
      by simp_all
    then show ?thesis unfolding failed_run_def by blast
  next
    case api
    with assms(2) have "list_all acknowledged (ev # acked)" "rollback M session_id dels res"
      "ev # new = (ev # acked) @ CreateCall k (namespace M) body (Inl (ApiError e)) # dels"
      "x = (case res of Inr u \<Rightarrow> ApiError e | Inl y \<Rightarrow> y)"
      by simp_all
    then show ?thesis unfolding failed_run_def by blast
  qed
qed

lemma create_resources_failure:
  "create_resources M session_id resources created w = (Inl x, w') \<Longrightarrow>
   \<exists>new. calls w' = calls w @ new \<and> replay M (cluster w) new = Some (cluster w') \<and>
     failed_run M session_id new x"
proof (induction resources arbitrary: created w)
  case Nil
  then show ?case by simp
next
  case (Cons resource resources)
  show ?case
  proof (cases resource rule: resource_cases)
    case skip
    from Cons.prems have "create_resources M session_id resources created w = (Inl x, w')"
      by (simp only: create_resources_skip [OF skip])
    from Cons.IH [OF this] show ?thesis .
  next
    case raise
    from Cons.prems have "x = AttributeError" "w' = w"
      by (simp_all only: create_resources_attribute_error [OF raise]) simp_all
    then show ?thesis
      by (intro exI [of _ "[]"]) (simp add: failed_run_def)
  next
    case (submit kind metadata name k)
    obtain res c where gw: "create_namespaced (core_v1 M) k (namespace M) resource (cluster w) = (res, c)"
      by (metis surj_pair)
    note step = create_resources_step [OF submit gw, of session_id resources created]
    show ?thesis
    proof (cases res)
      case (Inr ack)
      define w1 where "w1 = w\<lparr>cluster := c,
               calls := calls w @ [CreateCall k (namespace M) resource res],
               stdout := stdout w @ [check_mark @ '' Created '' @ kind_title k @ '': '' @ str_yaml M name]\<rparr>"
      let ?ev = "CreateCall k (namespace M) resource (Inr ack)"
      from Cons.prems step Inr
      have "create_resources M session_id resources (created(kind_key k \<mapsto> ack)) w1 = (Inl x, w')"
        by (simp add: w1_def)
      from Cons.IH [OF this] obtain new where
        new: "calls w' = calls w1 @ new" "replay M (cluster w1) new = Some (cluster w')"
          "failed_run M session_id new x"
        by blast
      have "calls w' = calls w @ (?ev # new)" using new(1) by (simp add: w1_def Inr)
      moreover have "replay M (cluster w) (?ev # new) = Some (cluster w')"
        using new(2) gw by (simp add: w1_def Inr)
      moreover have "failed_run M session_id (?ev # new) x"
        by (rule failed_run_Cons [OF new(3)]) simp
      ultimately show ?thesis by blast
    next
      case (Inl y)
      show ?thesis
      proof (cases "caught y")
        case None
        let ?ev = "CreateCall k (namespace M) resource (Inl y)"
        from Cons.prems step Inl None
        have x: "x = y" and w': "w' = w\<lparr>cluster := c, calls := calls w @ [?ev]\<rparr>"
          by simp_all
        have "calls w' = calls w @ [?ev]" by (simp add: w')
        moreover have "replay M (cluster w) [?ev] = Some (cluster w')"
          using gw by (simp add: w' Inl)
        moreover have "failed_run M session_id [?ev] x"
          unfolding failed_run_def
          using None x by (intro disjI2 disjI1 exI [of _ "[]"] exI [of _ k] exI [of _ resource]) simp
        ultimately show ?thesis by blast
      next
        case (Some e)
        then have y: "y = ApiError e" by (cases y) simp_all
        let ?ev = "CreateCall k (namespace M) resource (Inl (ApiError e))"
        define w1 where "w1 = w\<lparr>cluster := c,
                calls := calls w @ [CreateCall k (namespace M) resource res],
                stdout := stdout w @ [ballot_x @ '' Failed to create '' @ str_yaml M kind @ '' '' @
                                     str_yaml M name @ '': '' @ reason e]\<rparr>"
        obtain dres w2 where ds: "delete_session M session_id w1 = (dres, w2)"
          by (metis surj_pair)
        from Cons.prems step Inl Some ds
        have x: "x = (case dres of Inr u \<Rightarrow> ApiError e | Inl z \<Rightarrow> z)" and w': "w' = w2"
          by (auto simp: w1_def y split: sum.splits)
        from delete_session_run [of M session_id w1] ds obtain dels where
          dels: "calls w2 = calls w1 @ dels" "replay M (cluster w1) dels = Some (cluster w2)"
            "rollback M session_id dels dres"
          by auto
        have "calls w' = calls w @ (?ev # dels)"
          using dels(1) by (simp add: w' w1_def Inl y)
        moreover have "replay M (cluster w) (?ev # dels) = Some (cluster w')"
          using dels(2) gw by (simp add: w' w1_def Inl y)
        moreover have "failed_run M session_id (?ev # dels) x"
          unfolding failed_run_def
          using dels(3) x
          by (intro disjI2 exI [of _ "[]"] exI [of _ k] exI [of _ resource] exI [of _ e]
                exI [of _ dels] exI [of _ dres]) simp
        ultimately show ?thesis by blast
      qed
    qed
  qed
qed

lemma acknowledged_not_failed:
  "list_all acknowledged new \<Longrightarrow> CreateCall k ns body (Inl x) \<notin> set new"
  by (auto simp: list_all_iff)

lemma rollback_deletes:
  "rollback M session_id dels res \<Longrightarrow> CreateCall k ns body r \<notin> set dels"
  by (auto simp: rollback_def)

lemma create_resources_skips:
  assumes "py_get resource ''kind'' YNull = Inr kind"
    and "resource_kind kind = None"
    and "py_get resource ''metadata'' (YDict []) = Inr metadata"
    and "py_get metadata ''name'' YNull = Inr name"
  shows "create_resources M session_id (before @ resource # after) created w =
         create_resources M session_id (before @ after) created w"
proof (induction before arbitrary: created w)
  case Nil
  from assms have "create_resources M session_id (resource # after) created w =
      create_resources M session_id after created w"
    by (intro create_resources_skip) blast
  then show ?case by simp
next
  case (Cons b before)
  show ?case
  proof (cases b rule: resource_cases)
    case skip
    have "create_resources M session_id (b # (before @ resource # after)) created w =
        create_resources M session_id (before @ resource # after) created w"
      by (rule create_resources_skip [OF skip])
    moreover have "create_resources M session_id (b # (before @ after)) created w =
        create_resources M session_id (before @ after) created w"
      by (rule create_resources_skip [OF skip])
    ultimately show ?thesis using Cons.IH [of created w] by simp
  next
    case raise
    have "create_resources M session_id (b # (before @ resource # after)) created w = (Inl AttributeError, w)"
      by (rule create_resources_attribute_error [OF raise])
    moreover have "create_resources M session_id (b # (before @ after)) created w = (Inl AttributeError, w)"
      by (rule create_resources_attribute_error [OF raise])
    ultimately show ?thesis by simp
  next
    case (submit kind' metadata' name' k)
    obtain res c where gw: "create_namespaced (core_v1 M) k (namespace M) b (cluster w) = (res, c)"
      by (metis surj_pair)
    note l = create_resources_step [OF submit gw, of session_id "before @ resource # after" created]
    note r = create_resources_step [OF submit gw, of session_id "before @ after" created]
    show ?thesis
    proof (cases res)
      case (Inl e)
      have "create_resources M session_id (b # (before @ resource # after)) created w =
            create_resources M session_id (b # (before @ after)) created w"
        unfolding l r Inl by simp
      then show ?thesis by simp
    next
      case (Inr ack)
      have "create_resources M session_id (b # (before @ resource # after)) created w =
            create_resources M session_id (b # (before @ after)) created w"
        unfolding l r Inr by (simp only: sum.case Cons.IH)
      then show ?thesis by simp
    qed
  qed
qed

lemma dom_fold_record_ack:
  "dom (fold record_ack new created) \<subseteq> dom created \<union> {''pod'', ''service'', ''secret''}"
proof (induction new arbitrary: created)
  case Nil
  show ?case by auto
next
  case (Cons ev new)
  show ?case
  proof (cases ev)
    case (CreateCall k ns body r)
    show ?thesis
    proof (cases r)
      case (Inl x)
      with CreateCall Cons.IH [of created] show ?thesis by simp
    next
      case (Inr ack)
      have key: "kind_key k \<in> {''pod'', ''service'', ''secret''}" by (cases k) simp_all
      have "dom (fold record_ack new (created(kind_key k \<mapsto> ack))) \<subseteq>
          insert (kind_key k) (dom created) \<union> {''pod'', ''service'', ''secret''}"
        using Cons.IH [of "created(kind_key k \<mapsto> ack)"] by (simp only: dom_fun_upd option.simps if_False)
      with key have "dom (fold record_ack new (created(kind_key k \<mapsto> ack))) \<subseteq>
          dom created \<union> {''pod'', ''service'', ''secret''}"
        by blast
      then show ?thesis by (simp only: CreateCall Inr fold_simps record_ack.simps)
    qed
  next
    case (DeleteCall k name ns r)
    with Cons.IH [of created] show ?thesis by simp
  next
    case (ReadPodCall name ns r)
    with Cons.IH [of created] show ?thesis by simp
  qed
qed

lemma delete_resource_cong:
  assumes "namespace M' = namespace M" "core_v1 M' = core_v1 M"
  shows "delete_resource M' k name deleted w = delete_resource M k name deleted w"
  by (simp add: delete_resource_def call_delete_def assms)

lemma delete_session_cong:
  assumes "namespace M' = namespace M" "core_v1 M' = core_v1 M"
  shows "delete_session M' session_id w = delete_session M session_id w"
  unfolding delete_session_def delete_resource_cong [OF assms] by (rule refl)

lemma create_resources_cong:
  assumes "namespace M' = namespace M" "core_v1 M' = core_v1 M" "str_yaml M' = str_yaml M"
  shows "create_resources M' session_id resources created w =
         create_resources M session_id resources created w"
proof (induction resources arbitrary: created w)
  case Nil
  show ?case by simp
next
  case (Cons resource resources)
  show ?case
  proof (cases resource rule: resource_cases)
    case skip
    show ?thesis
      by (simp only: create_resources_skip [OF skip] Cons.IH)
  next
    case raise
    show ?thesis
      by (simp only: create_resources_attribute_error [OF raise])
  next
    case (submit kind metadata name k)
    obtain res c where gw: "create_namespaced (core_v1 M) k (namespace M) resource (cluster w) = (res, c)"
      by (metis surj_pair)
    from gw have gw': "create_namespaced (core_v1 M') k (namespace M') resource (cluster w) = (res, c)"
      by (simp add: assms)
    show ?thesis
      unfolding create_resources_step [OF submit gw] create_resources_step [OF submit gw']
        assms delete_session_cong [OF assms(1,2)]
      by (cases res) (simp_all only: sum.case Cons.IH)
  qed
qed

lemma demo_password: "resolve_password M demo_options = ''hunter2''"
  by (simp add: resolve_password_def demo_options_def)

lemma demo_render:
  "render_manifest demo_manager ''demo-1'' ''alice'' demo_url demo_options = demo_manifest"
  by (simp add: render_manifest_def demo_password demo_manager_fields variables_def
        demo_template_def demo_manifest_def unlines_def scan_defs)

lemma plain_render:
  "render_manifest (demo_manager\<lparr>template := plain_template\<rparr>) ''demo-1'' ''alice'' demo_url kwargs =
     plain_manifest"
  by (simp add: render_manifest_def variables_def plain_template_def plain_manifest_def
        unlines_def scan_defs)

lemma mixed_render:
  "render_manifest (demo_manager\<lparr>template := mixed_template\<rparr>) ''demo-1'' ''alice'' demo_url kwargs =
     mixed_manifest"
  by (simp add: render_manifest_def variables_def mixed_template_def mixed_manifest_def
        unlines_def scan_defs)

lemma demo_load: "demo_yaml demo_manifest = Inr demo_resources"
  by (simp add: demo_yaml_def)

lemma plain_load: "demo_yaml plain_manifest = Inr plain_resources"
  by (simp add: demo_yaml_def plain_manifest_def demo_manifest_def unlines_def)

lemma demo_conflict_calls:
  "calls (snd (create_session demo_manager ''demo-1'' ''alice'' demo_url demo_options conflict_world)) =
     [CreateCall Pod ''default'' (manifest_doc ''Pod'' ''lab-session-demo-1'')
        (Inr (manifest_doc ''Pod'' ''lab-session-demo-1''))] @
      CreateCall Service ''default'' (manifest_doc ''Service'' ''lab-service-demo-1'')
        (Inl (ApiError (ApiException 409 ''Conflict''))) #
     [DeleteCall Pod ''lab-session-demo-1'' ''default'' (Inr ()),
      DeleteCall Service ''lab-service-demo-1'' ''default'' (Inr ()),
      DeleteCall Secret ''lab-session-demo-1-secrets'' ''default''
        (Inl (ApiError (ApiException 404 ''Not Found'')))]"
  by (simp add: create_session_def demo_render demo_load demo_manager_fields demo_resources_def
        conflict_world_def sim_defs)

lemma demo_offline_calls:
  "calls (snd (create_session demo_manager ''demo-1'' ''alice'' demo_url demo_options offline_world)) =
     [CreateCall Pod ''default'' (manifest_doc ''Pod'' ''lab-session-demo-1'')
        (Inr (manifest_doc ''Pod'' ''lab-session-demo-1'')),
      CreateCall Service ''default'' (manifest_doc ''Service'' ''lab-service-demo-1'')
        (Inl (OtherError ''MaxRetryError''))]"
  by (simp add: create_session_def demo_render demo_load demo_manager_fields demo_resources_def
        offline_world_def sim_defs)

lemma first_failed_unique:
  assumes "list_all acknowledged acked" "list_all acknowledged acked'"
    and "acked @ CreateCall k ns body (Inl x) # dels = acked' @ CreateCall k' ns' body' (Inl x') # dels'"
  shows "acked = acked' \<and> dels = dels'"
  using assms
proof (induction acked arbitrary: acked')
  case Nil
  then show ?case by (cases acked') auto
next
  case (Cons a acked)
  then show ?case by (cases acked') auto
qed

lemma plain_run:
  "fst (create_session (demo_manager\<lparr>template := plain_template\<rparr>) ''demo-1'' ''alice'' demo_url
      kwargs (world0 [] [])) = Inr plain_created"
  by (simp add: create_session_def plain_render plain_load demo_manager_fields plain_resources_def
        sim_defs plain_created_def split: prod.splits)

text \<open>
  Claim C1, as stated, fails. The rollback stands in the clause
  \<open>except ApiException\<close> (lines 141-145). When the server is not reached for the
  service, the create call raises \<open>MaxRetryError\<close>, which the clause does not
  catch: \<open>create_session\<close> raises it after two calls, the create of the pod and the
  create of the service, no deletion is attempted, and the pod stays in the cluster.
\<close>

theorem create_failure_without_rollback:
  "fst (create_session demo_manager ''demo-1'' ''alice'' demo_url demo_options offline_world) =
     Inl (OtherError ''MaxRetryError'') \<and>
   calls (snd (create_session demo_manager ''demo-1'' ''alice'' demo_url demo_options offline_world)) =
     [CreateCall Pod ''default'' (manifest_doc ''Pod'' ''lab-session-demo-1'')
        (Inr (manifest_doc ''Pod'' ''lab-session-demo-1'')),
      CreateCall Service ''default'' (manifest_doc ''Service'' ''lab-service-demo-1'')
        (Inl (OtherError ''MaxRetryError''))] \<and>
   present (cluster (snd (create_session demo_manager ''demo-1'' ''alice'' demo_url demo_options
     offline_world))) = [(Pod, ''lab-session-demo-1'')]"
  by (simp add: create_session_def demo_render demo_load demo_manager_fields demo_resources_def
        offline_world_def sim_defs)

text \<open>
  Claim C1, amended. The API calls a call of \<open>create_session\<close> makes are calls of
  the API in the order of the log, each with the answer the API gave, and they lead from
  the cluster of the call to the cluster it leaves. If a create call among them raised
  the \<open>ApiException\<close> \<open>e\<close>, then the calls are: create calls that were all
  acknowledged, the create call that raised, and the rollback, with nothing after it, so
  no remaining document is submitted. The rollback is the deletion of the pod, of the
  service and of the secret of the session under their canonical names, in this order.
  When each deletion returns or raises an \<open>ApiException\<close>, all three are made and
  \<open>create_session\<close> raises \<open>e\<close>. When a deletion raises another exception, the
  rollback ends there and \<open>create_session\<close> raises that exception. In either case
  the call raises and does not return a dictionary. If a create call among them raised
  an exception that is not an \<open>ApiException\<close>, then it is the last call, after
  create calls that were all acknowledged: no deletion is attempted, and
  \<open>create_session\<close> raises that exception.
\<close>

theorem create_failure_rolls_back:
  assumes "create_session M session_id user_id rootfs_url kwargs w = (r, w')"
  shows "\<exists>new. calls w' = calls w @ new \<and> replay M (cluster w) new = Some (cluster w') \<and>
     (\<forall>k ns body e. CreateCall k ns body (Inl (ApiError e)) \<in> set new \<longrightarrow>
        (\<exists>acked dels res. list_all acknowledged acked \<and> rollback M session_id dels res \<and>
           new = acked @ CreateCall k ns body (Inl (ApiError e)) # dels \<and>
           r = Inl (case res of Inr u \<Rightarrow> ApiError e | Inl y \<Rightarrow> y))) \<and>
     (\<forall>k ns body x. CreateCall k ns body (Inl x) \<in> set new \<and> caught x = None \<longrightarrow>
        (\<exists>acked. list_all acknowledged acked \<and> new = acked @ [CreateCall k ns body (Inl x)]) \<and>
        r = Inl x)"
proof -
  have none: "\<exists>new. calls w' = calls w @ new \<and> replay M (cluster w) new = Some (cluster w') \<and>
     (\<forall>k ns body e. CreateCall k ns body (Inl (ApiError e)) \<in> set new \<longrightarrow>
        (\<exists>acked dels res. list_all acknowledged acked \<and> rollback M session_id dels res \<and>
           new = acked @ CreateCall k ns body (Inl (ApiError e)) # dels \<and>
           r = Inl (case res of Inr u \<Rightarrow> ApiError e | Inl y \<Rightarrow> y))) \<and>
     (\<forall>k ns body x. CreateCall k ns body (Inl x) \<in> set new \<and> caught x = None \<longrightarrow>
        (\<exists>acked. list_all acknowledged acked \<and> new = acked @ [CreateCall k ns body (Inl x)]) \<and>
        r = Inl x)"
    if "calls w' = calls w @ new" "replay M (cluster w) new = Some (cluster w')"
      "\<forall>k ns body x. CreateCall k ns body (Inl x) \<notin> set new" for new
    using that by (intro exI [of _ new]) simp
  show ?thesis
  proof (cases "yaml_safe_load_all M (render_manifest M session_id user_id rootfs_url kwargs)")
    case (Inl err)
    with assms have "w' = w" by (simp add: create_session_def)
    then show ?thesis by (intro none [of "[]"]) simp_all
  next
    case (Inr resources)
    obtain r0 w0 where run: "create_resources M session_id resources Map.empty w = (r0, w0)"
      by (metis surj_pair)
    show ?thesis
    proof (cases r0)
      case created: (Inr created)
      with assms Inr run have cw: "calls w' = calls w0" "cluster w' = cluster w0"
        by (auto simp: create_session_def print_lines_def)
      from create_resources_success [OF run [unfolded created]] obtain new where
        new: "calls w0 = calls w @ new" "replay M (cluster w) new = Some (cluster w0)"
          "list_all acknowledged new"
        by blast
      show ?thesis
        using new cw acknowledged_not_failed [OF new(3)] by (intro none [of new]) simp_all
    next
      case failed: (Inl x)
      with assms Inr run have rw: "r = Inl x" "w' = w0"
        by (auto simp: create_session_def)
      from create_resources_failure [OF run [unfolded failed]] obtain new where
        new: "calls w0 = calls w @ new" "replay M (cluster w) new = Some (cluster w0)"
          "failed_run M session_id new x"
        by blast
      have log: "calls w' = calls w @ new" "replay M (cluster w) new = Some (cluster w')"
        using new(1,2) rw(2) by simp_all
      from new(3) consider
        (doc) "list_all acknowledged new"
      | (esc) acked k body where "list_all acknowledged acked" "caught x = None"
          "new = acked @ [CreateCall k (namespace M) body (Inl x)]"
      | (api) acked k body e dels res where "list_all acknowledged acked"
          "rollback M session_id dels res"
          "new = acked @ CreateCall k (namespace M) body (Inl (ApiError e)) # dels"
          "x = (case res of Inr u \<Rightarrow> ApiError e | Inl y \<Rightarrow> y)"
        unfolding failed_run_def by blast
      then show ?thesis
      proof cases
        case doc
        show ?thesis
          using log acknowledged_not_failed [OF doc] by (intro none [of new]) simp_all
      next
        case esc
        have only: "k' = k \<and> ns' = namespace M \<and> body' = body \<and> x' = x"
          if "CreateCall k' ns' body' (Inl x') \<in> set new" for k' ns' body' x'
          using that acknowledged_not_failed [OF esc(1), of k' ns' body' x']
          by (auto simp: esc(3))
        have api_free: "\<forall>k' ns' body' e'. CreateCall k' ns' body' (Inl (ApiError e')) \<in> set new \<longrightarrow>
          (\<exists>acked dels res. list_all acknowledged acked \<and> rollback M session_id dels res \<and>
             new = acked @ CreateCall k' ns' body' (Inl (ApiError e')) # dels \<and>
             r = Inl (case res of Inr u \<Rightarrow> ApiError e' | Inl y \<Rightarrow> y))"
        proof (intro allI impI)
          fix k' ns' body' e'
          assume "CreateCall k' ns' body' (Inl (ApiError e')) \<in> set new"
          from only [OF this] esc(2) have False by auto
          then show "\<exists>acked dels res. list_all acknowledged acked \<and> rollback M session_id dels res \<and>
             new = acked @ CreateCall k' ns' body' (Inl (ApiError e')) # dels \<and>
             r = Inl (case res of Inr u \<Rightarrow> ApiError e' | Inl y \<Rightarrow> y)" ..
        qed
        have escaped: "\<forall>k' ns' body' x'. CreateCall k' ns' body' (Inl x') \<in> set new \<and> caught x' = None \<longrightarrow>
          (\<exists>acked. list_all acknowledged acked \<and> new = acked @ [CreateCall k' ns' body' (Inl x')]) \<and>
          r = Inl x'"
        proof (intro allI impI)
          fix k' ns' body' x'
          assume "CreateCall k' ns' body' (Inl x') \<in> set new \<and> caught x' = None"
          then have "CreateCall k' ns' body' (Inl x') \<in> set new" ..
          from only [OF this] have eqs: "k' = k" "ns' = namespace M" "body' = body" "x' = x"
            by simp_all
          show "(\<exists>acked. list_all acknowledged acked \<and> new = acked @ [CreateCall k' ns' body' (Inl x')]) \<and>
            r = Inl x'"
            unfolding eqs using esc(1,3) rw(1) by (intro conjI exI [of _ acked]) simp_all
        qed
        from log api_free escaped show ?thesis by (intro exI [of _ new]) simp
      next
        case api
        have only: "k' = k \<and> ns' = namespace M \<and> body' = body \<and> x' = ApiError e"
          if "CreateCall k' ns' body' (Inl x') \<in> set new" for k' ns' body' x'
          using that acknowledged_not_failed [OF api(1), of k' ns' body' x']
            rollback_deletes [OF api(2), of k' ns' body' "Inl x'"]
          by (auto simp: api(3))
        have all: "\<forall>k' ns' body' e'. CreateCall k' ns' body' (Inl (ApiError e')) \<in> set new \<longrightarrow>
          (\<exists>acked dels res. list_all acknowledged acked \<and> rollback M session_id dels res \<and>
             new = acked @ CreateCall k' ns' body' (Inl (ApiError e')) # dels \<and>
             r = Inl (case res of Inr u \<Rightarrow> ApiError e' | Inl y \<Rightarrow> y))"
        proof (intro allI impI)
          fix k' ns' body' e'
          assume "CreateCall k' ns' body' (Inl (ApiError e')) \<in> set new"
          from only [OF this] have eqs: "k' = k" "ns' = namespace M" "body' = body" "e' = e"
            by simp_all
          show "\<exists>acked dels res. list_all acknowledged acked \<and> rollback M session_id dels res \<and>
             new = acked @ CreateCall k' ns' body' (Inl (ApiError e')) # dels \<and>
             r = Inl (case res of Inr u \<Rightarrow> ApiError e' | Inl y \<Rightarrow> y)"
            unfolding eqs using api rw(1)
            by (rule_tac x = acked in exI, rule_tac x = dels in exI, rule_tac x = res in exI) simp
        qed
        have escaped: "\<forall>k' ns' body' x'. CreateCall k' ns' body' (Inl x') \<in> set new \<and> caught x' = None \<longrightarrow>
          (\<exists>acked. list_all acknowledged acked \<and> new = acked @ [CreateCall k' ns' body' (Inl x')]) \<and>
          r = Inl x'"
        proof (intro allI impI)
          fix k' ns' body' x'
          assume h: "CreateCall k' ns' body' (Inl x') \<in> set new \<and> caught x' = None"
          then have "CreateCall k' ns' body' (Inl x') \<in> set new" ..
          from only [OF this] h have False by auto
          then show "(\<exists>acked. list_all acknowledged acked \<and> new = acked @ [CreateCall k' ns' body' (Inl x')]) \<and>
            r = Inl x'" ..
        qed
        from log all escaped show ?thesis by (intro exI [of _ new]) simp
      qed
    qed
  qed
qed

theorem create_failure_rolls_back_witness:
  "fst (create_session demo_manager ''demo-1'' ''alice'' demo_url demo_options conflict_world) =
     Inl (ApiError (ApiException 409 ''Conflict'')) \<and>
   fst (create_session demo_manager ''demo-1'' ''alice'' demo_url demo_options offline_world) =
     Inl (OtherError ''MaxRetryError'')"
proof -
  let ?off = "create_session demo_manager ''demo-1'' ''alice'' demo_url demo_options offline_world"
  let ?lost = "CreateCall Service ''default'' (manifest_doc ''Service'' ''lab-service-demo-1'')
        (Inl (OtherError ''MaxRetryError''))"
  have "?off = (fst ?off, snd ?off)" by simp
  from create_failure_rolls_back [OF this] obtain new' where
    new': "calls (snd ?off) = calls offline_world @ new'"
    and esc: "\<forall>k ns body x. CreateCall k ns body (Inl x) \<in> set new' \<and> caught x = None \<longrightarrow>
        (\<exists>acked. list_all acknowledged acked \<and> new' = acked @ [CreateCall k ns body (Inl x)]) \<and>
        fst ?off = Inl x"
    by blast
  have "calls offline_world = []" by (simp add: offline_world_def world_of_def)
  with new' have "new' = [CreateCall Pod ''default'' (manifest_doc ''Pod'' ''lab-session-demo-1'')
        (Inr (manifest_doc ''Pod'' ''lab-session-demo-1'')), ?lost]"
    by (simp only: demo_offline_calls) simp
  then have "?lost \<in> set new'" by simp
  then have "?lost \<in> set new' \<and> caught (OtherError ''MaxRetryError'') = None" by simp
  with esc have off: "fst ?off = Inl (OtherError ''MaxRetryError'')" by blast
  let ?run = "create_session demo_manager ''demo-1'' ''alice'' demo_url demo_options conflict_world"
  let ?failed = "CreateCall Service ''default'' (manifest_doc ''Service'' ''lab-service-demo-1'')
        (Inl (ApiError (ApiException 409 ''Conflict'')))"
  let ?dels = "[DeleteCall Pod ''lab-session-demo-1'' ''default'' (Inr ()),
      DeleteCall Service ''lab-service-demo-1'' ''default'' (Inr ()),
      DeleteCall Secret ''lab-session-demo-1-secrets'' ''default''
        (Inl (ApiError (ApiException 404 ''Not Found'')))]"
  let ?acked = "[CreateCall Pod ''default'' (manifest_doc ''Pod'' ''lab-session-demo-1'')
        (Inr (manifest_doc ''Pod'' ''lab-session-demo-1''))]"
  have "?run = (fst ?run, snd ?run)" by simp
  from create_failure_rolls_back [OF this] obtain new where
    new: "calls (snd ?run) = calls conflict_world @ new"
    and all: "\<forall>k ns body e. CreateCall k ns body (Inl (ApiError e)) \<in> set new \<longrightarrow>
        (\<exists>acked dels res. list_all acknowledged acked \<and> rollback demo_manager ''demo-1'' dels res \<and>
           new = acked @ CreateCall k ns body (Inl (ApiError e)) # dels \<and>
           fst ?run = Inl (case res of Inr u \<Rightarrow> ApiError e | Inl y \<Rightarrow> y))"
    by blast
  have "calls conflict_world = []" by (simp add: conflict_world_def world0_def world_of_def)
  with new have eq: "new = ?acked @ ?failed # ?dels" by (simp only: demo_conflict_calls) simp
  then have "?failed \<in> set new" by simp
  with all obtain acked dels res where
    a: "list_all acknowledged acked" "rollback demo_manager ''demo-1'' dels res"
      "new = acked @ ?failed # dels"
      "fst ?run = Inl (case res of Inr u \<Rightarrow> ApiError (ApiException 409 ''Conflict'') | Inl y \<Rightarrow> y)"
    by blast
  have "list_all acknowledged ?acked" by simp
  from first_failed_unique [OF a(1) this a(3) [unfolded eq, symmetric]] have "dels = ?dels" by simp
  with a(2) have "res = Inr ()" by (auto simp: rollback_def)
  with a(4) have "fst ?run = Inl (ApiError (ApiException 409 ''Conflict''))" by simp
  then show ?thesis using off by (rule conjI)
qed

text \<open>
  Claim C2, as stated, fails. The value returned is the dictionary \<open>created\<close>
  (line 161), and nothing is added to it for the credential. With a template of a pod
  and a service, two calls that differ in the password only, \<open>alpha\<close> and
  \<open>beta\<close>, return the same dictionary of the two acknowledgments: the value returned
  does not tell which credential was resolved.
\<close>

theorem create_return_omits_credential:
  "fst (create_session (demo_manager\<lparr>template := plain_template\<rparr>) ''demo-1'' ''alice'' demo_url
      (no_options\<lparr>vscode_password := Some ''alpha''\<rparr>) (world0 [] [])) = Inr plain_created \<and>
   fst (create_session (demo_manager\<lparr>template := plain_template\<rparr>) ''demo-1'' ''alice'' demo_url
      (no_options\<lparr>vscode_password := Some ''beta''\<rparr>) (world0 [] [])) = Inr plain_created \<and>
   resolve_password (demo_manager\<lparr>template := plain_template\<rparr>)
      (no_options\<lparr>vscode_password := Some ''alpha''\<rparr>) = ''alpha'' \<and>
   resolve_password (demo_manager\<lparr>template := plain_template\<rparr>)
      (no_options\<lparr>vscode_password := Some ''beta''\<rparr>) = ''beta''"
  by (simp add: plain_run resolve_password_def no_options_def)

text \<open>
  Claim C2, amended. When \<open>create_session\<close> returns, every API call it made is a
  create that the API acknowledged, and these calls lead from the cluster of the call to
  the cluster it leaves. The value returned is the dictionary these acknowledgments make:
  under the key of each kind, the acknowledgment of the last resource of that kind that
  was submitted (all acknowledgments, when no kind occurs twice). Its keys are among
  \<open>pod\<close>, \<open>service\<close> and \<open>secret\<close>: it has no entry for the credential.
  The resolved credential is printed, in the access information that ends the output.
\<close>

theorem create_success_returns_acks:
  assumes "create_session M session_id user_id rootfs_url kwargs w = (Inr created, w')"
  shows "\<exists>new out. calls w' = calls w @ new \<and> replay M (cluster w) new = Some (cluster w') \<and>
     list_all acknowledged new \<and>
     created = fold record_ack new Map.empty \<and>
     dom created \<subseteq> {''pod'', ''service'', ''secret''} \<and>
     stdout w' = stdout w @ out @
       access_information session_id user_id rootfs_url (resolve_password M kwargs)"
proof (cases "yaml_safe_load_all M (render_manifest M session_id user_id rootfs_url kwargs)")
  case (Inl err)
  with assms show ?thesis by (simp add: create_session_def)
next
  case (Inr resources)
  obtain r0 w0 where run: "create_resources M session_id resources Map.empty w = (r0, w0)"
    by (metis surj_pair)
  show ?thesis
  proof (cases r0)
    case (Inl x)
    with assms Inr run show ?thesis by (simp add: create_session_def)
  next
    case created: (Inr created0)
    with assms Inr run have eq: "created = created0"
      "w' = print_lines (access_information session_id user_id rootfs_url (resolve_password M kwargs)) w0"
      by (auto simp: create_session_def)
    from create_resources_success [OF run [unfolded created]] obtain new out where
      new: "calls w0 = calls w @ new" "stdout w0 = stdout w @ out"
        "replay M (cluster w) new = Some (cluster w0)" "list_all acknowledged new"
        "created0 = fold record_ack new Map.empty"
      by blast
    have "calls w' = calls w @ new" "stdout w' = stdout w @ out @
       access_information session_id user_id rootfs_url (resolve_password M kwargs)"
      "replay M (cluster w) new = Some (cluster w')"
      using new(1,2,3) by (simp_all add: eq print_lines_def)
    moreover have "dom created \<subseteq> {''pod'', ''service'', ''secret''}"
      using dom_fold_record_ack [of new Map.empty] by (simp add: eq(1) new(5))
    ultimately show ?thesis
      using new(4,5) eq(1) by (intro exI [of _ new] exI [of _ out]) simp
  qed
qed

theorem create_success_returns_acks_witness:
  "''VS Code Password: hunter2'' \<in> set (stdout (snd
     (create_session (demo_manager\<lparr>template := plain_template\<rparr>) ''demo-1'' ''alice'' demo_url
        demo_options (world0 [] []))))"
proof -
  let ?run = "create_session (demo_manager\<lparr>template := plain_template\<rparr>) ''demo-1'' ''alice'' demo_url
        demo_options (world0 [] [])"
  have "?run = (Inr plain_created, snd ?run)"
    using plain_run [of demo_options] by (simp add: prod_eq_iff)
  from create_success_returns_acks [OF this] obtain out where
    "stdout (snd ?run) = stdout (world0 [] []) @ out @
       access_information ''demo-1'' ''alice'' demo_url
         (resolve_password (demo_manager\<lparr>template := plain_template\<rparr>) demo_options)"
    by blast
  then show ?thesis by (simp add: demo_password access_information_def)
qed

text \<open>
  Claim C6. When the YAML loader fails on the rendered manifest, \<open>create_session\<close>
  raises the loader's error and the world is unchanged: no API call was made.
\<close>

theorem parse_failure_submits_nothing:
  assumes "yaml_safe_load_all M (render_manifest M session_id user_id rootfs_url kwargs) = Inl err"
  shows "create_session M session_id user_id rootfs_url kwargs w = (Inl (YAMLError err), w)"
  using assms by (simp add: create_session_def)

theorem parse_failure_submits_nothing_witness:
  "create_session (demo_manager\<lparr>template := ''kind: [''\<rparr>) ''demo-1'' ''alice'' demo_url no_options
     (world0 [] []) = (Inl (YAMLError ''ParserError''), world0 [] [])"
proof -
  have "render_manifest (demo_manager\<lparr>template := ''kind: [''\<rparr>) ''demo-1'' ''alice'' demo_url no_options =
      ''kind: [''"
    by (simp add: render_manifest_def scan_defs)
  then have "yaml_safe_load_all (demo_manager\<lparr>template := ''kind: [''\<rparr>)
      (render_manifest (demo_manager\<lparr>template := ''kind: [''\<rparr>) ''demo-1'' ''alice'' demo_url no_options) =
      Inl ''ParserError''"
    by (simp add: demo_manager_fields demo_yaml_def demo_manifest_def plain_manifest_def
          mixed_manifest_def configmap_template_def unlines_def)
  then show ?thesis by (rule parse_failure_submits_nothing)
qed

text \<open>
  Claim C9, as stated, fails. A document of kind \<open>ConfigMap\<close> whose
  \<open>metadata\<close> is null makes \<open>metadata.get('name')\<close> raise
  \<open>AttributeError\<close> (line 114), before the kind is looked at.
\<close>

theorem unmapped_kind_with_null_metadata_raises:
  "fst (create_session (demo_manager\<lparr>template := configmap_template\<rparr>) ''demo-1'' ''alice'' demo_url
      no_options (world0 [] [])) = Inl AttributeError \<and>
   resource_kind (YStr ''ConfigMap'') = None"
proof -
  have "render_manifest (demo_manager\<lparr>template := configmap_template\<rparr>) ''demo-1'' ''alice'' demo_url
      no_options = configmap_template"
    by (simp add: render_manifest_def configmap_template_def unlines_def scan_defs)
  moreover have "demo_yaml configmap_template = Inr configmap_resources"
    by (simp add: demo_yaml_def demo_manifest_def plain_manifest_def mixed_manifest_def
          configmap_template_def unlines_def)
  ultimately show ?thesis
    by (simp add: create_session_def demo_manager_fields configmap_resources_def)
qed

text \<open>
  Claim C9, amended. A loaded document that is a dictionary, whose kind is none of Pod,
  Service and Secret and whose \<open>metadata\<close> is absent or a dictionary, is skipped:
  \<open>create_session\<close> gives the same result and the same world (the same API calls,
  the same printed lines, the same cluster) as when the loader yields the other documents
  alone. So no call is made for the document, it adds nothing to the dictionary returned,
  and it raises nothing.
\<close>

theorem unmapped_kind_is_skipped:
  assumes kind: "py_get resource ''kind'' YNull = Inr kind" "resource_kind kind = None"
    and metadata: "py_get resource ''metadata'' (YDict []) = Inr metadata"
      "py_get metadata ''name'' YNull = Inr name"
    and loaded: "yaml_safe_load_all M (render_manifest M session_id user_id rootfs_url kwargs) =
      Inr (before @ resource # after)"
  shows "create_session M session_id user_id rootfs_url kwargs w =
         create_session (M\<lparr>yaml_safe_load_all := \<lambda>text. Inr (before @ after)\<rparr>)
           session_id user_id rootfs_url kwargs w"
proof -
  let ?M = "M\<lparr>yaml_safe_load_all := \<lambda>text. Inr (before @ after)\<rparr>"
  have loop: "create_resources ?M session_id (before @ after) Map.empty w =
      create_resources M session_id (before @ resource # after) Map.empty w"
    by (simp add: create_resources_cong [of ?M M]
          create_resources_skips [OF kind(1) kind(2) metadata])
  have pw: "resolve_password ?M kwargs = resolve_password M kwargs"
    by (simp add: resolve_password_def generate_password_def split: option.splits)
  show ?thesis
    by (simp add: create_session_def loaded loop pw split: prod.splits sum.splits)
qed

theorem unmapped_kind_is_skipped_witness:
  "fst (create_session (demo_manager\<lparr>template := mixed_template\<rparr>) ''demo-1'' ''alice'' demo_url
      no_options (world0 [] [])) = Inr plain_created"
proof -
  let ?M = "demo_manager\<lparr>template := mixed_template\<rparr>"
  have doc: "py_get configmap_doc ''kind'' YNull = Inr (YStr ''ConfigMap'')"
    "resource_kind (YStr ''ConfigMap'') = None"
    "py_get configmap_doc ''metadata'' (YDict []) = Inr (YDict [(''name'', YStr ''lab-config'')])"
    "py_get (YDict [(''name'', YStr ''lab-config'')]) ''name'' YNull = Inr (YStr ''lab-config'')"
    by (simp_all add: configmap_doc_def)
  have loaded: "yaml_safe_load_all ?M (render_manifest ?M ''demo-1'' ''alice'' demo_url no_options) =
      Inr ([manifest_doc ''Pod'' ''lab-session-demo-1''] @ configmap_doc #
           [manifest_doc ''Service'' ''lab-service-demo-1''])"
    by (simp only: mixed_render)
       (simp add: demo_manager_fields demo_yaml_def demo_manifest_def plain_manifest_def
          mixed_manifest_def unlines_def)
  have "fst (create_session
      (?M\<lparr>yaml_safe_load_all := \<lambda>text. Inr ([manifest_doc ''Pod'' ''lab-session-demo-1''] @
          [manifest_doc ''Service'' ''lab-service-demo-1''])\<rparr>)
      ''demo-1'' ''alice'' demo_url no_options (world0 [] [])) = Inr plain_created"
    by (simp add: create_session_def demo_manager_fields sim_defs plain_created_def
          split: prod.splits)
  with unmapped_kind_is_skipped [OF doc loaded, of "world0 [] []"] show ?thesis by simp
qed



subsection \<open>Status of a session\<close>




end
